theory Spec2Isabelle
  imports Main
begin

section \<open>Legacy records, payloads and migration state\<close>

text \<open>
  The migration script reads three legacy collections (guilds, projects, submissions),
  an id mapping and a list of failed submission ids, and walks guild, project and
  submission in that order. Record fields carry a prefix per record, since several
  interfaces of the script share field names (\<open>type\<close>, \<open>src\<close>, \<open>project\<close>, \<open>guilds\<close>).
\<close>

type_synonym bytes = "nat list"

text \<open>The two members of a parsed \<open>URL\<close> object that the script reads.\<close>

record URL =
  host :: string
  pathname :: string

datatype mediatype = Image | Video | Text

datatype subtype = Picture | Artwork

datatype status = Ongoing | Past

record IGuild =
  g_id :: string
  g_name :: string
  g_description :: string
  g_image :: string
  g_invite :: string
  g_debutDate :: string
  g_color :: "string option"

record ISubmission =
  s_id :: string
  s_project :: int
  s_author :: "string option"
  s_srcIcon :: "string option"
  s_type :: mediatype
  s_subtype :: "subtype option"
  s_src :: "string option"
  s_message :: "string option"

record IMedia =
  m_id :: string
  m_type :: mediatype
  m_src :: "string option"
  m_message :: "string option"

record ILink =
  l_id :: string
  l_name :: string
  l_link :: string

datatype credittype = CArtwork | CCode | CMusic | COrganization

record ICredit =
  c_type :: credittype
  c_user :: string
  c_pfp :: string
  c_github :: "string option"
  c_twitter :: "string option"
  c_youtube :: "string option"

record IProject =
  p_id :: int
  p_status :: status
  p_guild :: string
  p_media :: "IMedia list option"
  p_title :: string
  p_shortDescription :: string
  p_description :: string
  p_links :: "ILink list option"
  p_date :: string
  p_flags :: "string list option"
  p_ogImage :: "string option"
  p_backgroundMusic :: "string option"
  p_credits :: "ICredit list option"

text \<open>
  \<open>successfullyProcessed\<close> is an \<open>any[]\<close>: guild ids and submission ids are pushed as
  strings, project ids as numbers, and \<open>includes\<close> never equates a number with a string.
\<close>

datatype jsval = Str string | Num int

record IMapping =
  map_guilds :: "string \<rightharpoonup> string"
  map_projects :: "int \<rightharpoonup> string"
  successfullyProcessed :: "jsval list"

text \<open>The request bodies of the three entity-creation calls.\<close>

record newSubmission =
  ns_project :: "string option"
  ns_type :: mediatype
  ns_author :: string
  ns_subtype :: "subtype option"
  ns_message :: "string option"
  ns_url :: "string option"
  ns_srcIcon :: "string option"
  ns_media :: "string option"

datatype devvalue = Raw string | JsonCredits "ICredit list" | JsonFlags "string list"

datatype PayloadProjectMedia = MediaVideo "string option" | MediaImage string

record newProject =
  np_image :: "string option"
  np_organizer :: "string option"
  np_shortDescription :: string
  np_slug :: string
  np_status :: status
  np_title :: string
  np_links :: "(string \<times> string) list option"
  np_description :: string
  np_date :: string
  np_devprops :: "(string \<times> devvalue) list"
  np_ogImage :: "string option"
  np_media :: "PayloadProjectMedia list"

record newGuild =
  ng_name :: string
  ng_description :: string
  ng_debutDate :: string
  ng_invite :: string
  ng_icon :: "string option"

text \<open>
  Every remote call the script issues is appended to a trace, with the reply it got.
  The first argument of the three creation events is the legacy id of the record being
  migrated; it is a label of the model (the request bodies of guilds and submissions do
  not carry the legacy id).
\<close>

datatype event =
  HttpGet string "bytes option"
| PostMedia string string bytes "string option"
| PostGuild string newGuild "string option"
| PostProject int newProject "string option"
| PostSubmission string newSubmission bool

datatype error =
  ConfigError | InvalidURL | URIError | ENOENT | EISDIR | InvalidDate | MarkdownError
| GetFailed | UploadFailed | CreateFailed

text \<open>What a path of the file system denotes when it exists: a regular file with its
  bytes, or a directory.\<close>

datatype node = File bytes | Dir

text \<open>A line on the console: \<open>console.log\<close> of a text, \<open>console.error\<close> of a text, and
  \<open>console.error\<close> of a text followed by the exception that was caught.\<close>

datatype logline = Log string | LogError string | LogCaught string error

datatype outcome = Returned | Threw error

text \<open>
  The mutable globals of the script (\<open>mapping\<close>, \<open>failed\<close>, \<open>missing\<close>), the cache
  directory, the trace of remote calls and the lines written to the console. The cache
  directory \<open>./images/cache\<close> holds one directory per folder name and, in it, the files
  the script has written: \<open>cache st folder\<close> is \<open>None\<close> when the directory
  \<open>./images/cache/<folder>\<close> does not exist, and otherwise the files in it by name.
\<close>

record state =
  mapping :: IMapping
  failed :: "string list"
  missing :: "ISubmission list"
  cache :: "string \<rightharpoonup> (string \<rightharpoonup> bytes)"
  trace :: "event list"
  console :: "logline list"

text \<open>
  Everything the script takes from outside: the environment variables, the legacy
  snapshot, the read-only originals directory (\<open>orig e (folder, name)\<close> is what the path
  \<open>./images/orig/<folder>/<name>\<close> denotes, for any name, also an empty one or one with
  slashes in it), the library functions it calls (a result of \<open>None\<close> is the function
  throwing) and the replies of the remote systems. A reply may depend on the number of
  remote calls issued before it, so the same request can fail once and succeed later.
\<close>

record env =
  CMS_URL :: "string option"
  API_KEY :: "string option"
  BYPASS_KEY :: "string option"
  DEFAULT_MEDIA :: "string option"
  guilds :: "IGuild list"
  projects :: "IProject list"
  submissions :: "ISubmission list"
  orig :: "string \<times> string \<rightharpoonup> node"
  parseURL :: "string \<Rightarrow> URL option"
  decodeURIComponent :: "string \<Rightarrow> string option"
  encodeURI :: "string \<Rightarrow> string option"
  isoDate :: "string \<Rightarrow> string option"
  markdownToSlate :: "string \<Rightarrow> string option"
  httpGet :: "nat \<Rightarrow> string \<Rightarrow> bytes option"
  postMedia :: "nat \<Rightarrow> string \<Rightarrow> string \<Rightarrow> bytes \<Rightarrow> string option"
  postGuild :: "nat \<Rightarrow> newGuild \<Rightarrow> string option"
  postProject :: "nat \<Rightarrow> newProject \<Rightarrow> string option"
  postSubmission :: "nat \<Rightarrow> newSubmission \<Rightarrow> bool"

definition legacyHost :: string where
  "legacyHost = ''s3.fr-par.scw.cloud''"

text \<open>JavaScript truthiness of an optional string: present and not empty.\<close>

fun truthy :: "string option \<Rightarrow> bool" where
  "truthy None = False"
| "truthy (Some s) = (s \<noteq> [])"

text \<open>The non-null assertion \<open>x!\<close> has no effect at run time: an absent string stays
  \<open>undefined\<close>, which \<open>new URL\<close> and the other callees read as the text \<open>undefined\<close>.\<close>

fun assertString :: "string option \<Rightarrow> string" where
  "assertString None = ''undefined''"
| "assertString (Some s) = s"

text \<open>\<open>pathname.split('/')\<close> followed by taking the last element.\<close>

definition lastSegment :: "string \<Rightarrow> string" where
  "lastSegment p = rev (takeWhile (\<lambda>c. c \<noteq> CHR ''/'') (rev p))"

text \<open>\<open>.replace(/#/g, '-')\<close>\<close>

definition replaceHash :: "string \<Rightarrow> string" where
  "replaceHash s = map (\<lambda>c. if c = CHR ''#'' then CHR ''-'' else c) s"

text \<open>\<open>Number.prototype.toString\<close> on an integer id: its decimal digits. Ids are taken
  to be integers of a magnitude below \<open>1e21\<close>, where JavaScript prints a number in this
  form; the exponent form of larger numbers is not modelled.\<close>

definition digitChar :: "nat \<Rightarrow> char" where
  "digitChar n = ''0123456789'' ! n"

fun digits :: "nat \<Rightarrow> string" where
  "digits n = (if n < 10 then [digitChar n] else digits (n div 10) @ [digitChar (n mod 10)])"

declare digits.simps [simp del]

definition toString :: "int \<Rightarrow> string" where
  "toString i = (if i < 0 then CHR ''-'' # digits (nat (- i)) else digits (nat i))"

text \<open>Writing one line to the console.\<close>

definition consoleWrite :: "logline \<Rightarrow> state \<Rightarrow> state" where
  "consoleWrite l st = st\<lparr>console := console st @ [l]\<rparr>"

section \<open>Image cache\<close>

text \<open>
  The file name in a cache path is the last segment of a URL path, so it has no slash in
  it. When it is empty (the URL path ends in a slash), the path
  \<open>./images/cache/<folder>/\<close> is the directory of the folder itself; the two dot names
  denote a directory as well. Limits of the operating system (length of a name,
  permissions, a full disk) are outside the model.
\<close>

definition isDirName :: "string \<Rightarrow> bool" where
  "isDirName filename = (filename = [] \<or> filename = ''.'' \<or> filename = ''..'')"

text \<open>What the path \<open>./images/cache/<folder>/<filename>\<close> denotes; \<open>None\<close> when
  \<open>fs.existsSync\<close> of it is false.\<close>

definition lookupPath ::
  "(string \<rightharpoonup> (string \<rightharpoonup> bytes)) \<Rightarrow> string \<Rightarrow> string \<Rightarrow> node option" where
  "lookupPath c folder filename =
    (case c folder of
      None \<Rightarrow> None
    | Some dir \<Rightarrow> if isDirName filename then Some Dir else map_option File (dir filename))"

text \<open>The cache directory after \<open>fs.unlinkSync\<close> of a file and after \<open>fs.writeFileSync\<close>
  of a file in an existing folder.\<close>

definition removeFile ::
  "(string \<rightharpoonup> (string \<rightharpoonup> bytes)) \<Rightarrow> string \<Rightarrow> string \<Rightarrow> (string \<rightharpoonup> (string \<rightharpoonup> bytes))" where
  "removeFile c folder filename =
    (case c folder of None \<Rightarrow> c | Some dir \<Rightarrow> c(folder \<mapsto> dir(filename := None)))"

definition storeFile ::
  "(string \<rightharpoonup> (string \<rightharpoonup> bytes)) \<Rightarrow> string \<Rightarrow> string \<Rightarrow> bytes
     \<Rightarrow> (string \<rightharpoonup> (string \<rightharpoonup> bytes))" where
  "storeFile c folder filename file =
    (case c folder of None \<Rightarrow> c | Some dir \<Rightarrow> c(folder \<mapsto> dir(filename \<mapsto> file)))"

text \<open>
  \<open>cacheImage\<close>: create the directory of the folder when it does not exist, then write
  the file. The result is the exception, if any: \<open>fs.writeFileSync\<close> of a path that
  denotes a directory throws \<open>EISDIR\<close>, after the directory has been created.
\<close>

definition cacheImage :: "state \<Rightarrow> string \<Rightarrow> string \<Rightarrow> bytes \<Rightarrow> error option \<times> state" where
  "cacheImage st folder filename file =
    (let st1 = (if cache st folder = None
                then st\<lparr>cache := (cache st)(folder \<mapsto> Map.empty)\<rparr> else st)
     in if isDirName filename then (Some EISDIR, st1)
        else (None, st1\<lparr>cache := storeFile (cache st1) folder filename file\<rparr>))"

text \<open>
  The two originals branches of \<open>findImageInCache\<close> when the flag is not set: read the
  file (\<open>fs.readFileSync\<close> of a directory throws \<open>EISDIR\<close>), copy it into the cache and
  return it.
\<close>

definition copyOriginal ::
  "state \<Rightarrow> string \<Rightarrow> string \<Rightarrow> node \<Rightarrow> (error + bytes option) \<times> state" where
  "copyOriginal st folder filename original =
    (case original of
      Dir \<Rightarrow> (Inl EISDIR, st)
    | File file \<Rightarrow>
        (case cacheImage st folder filename file of
          (Some err, st1) \<Rightarrow> (Inl err, st1)
        | (None, st1) \<Rightarrow> (Inr (Some file), st1)))"

text \<open>
  \<open>findImageInCache\<close>: the result is \<open>Inl\<close> when the function throws, \<open>Inr None\<close> for
  \<open>null\<close>. \<open>fs.unlinkSync\<close> of a path that does not exist throws \<open>ENOENT\<close> (in the two
  originals branches the cache path is known not to exist); \<open>fs.unlinkSync\<close> and
  \<open>fs.readFileSync\<close> of a path that denotes a directory throw \<open>EISDIR\<close>.
\<close>

definition findImageInCache ::
  "env \<Rightarrow> state \<Rightarrow> string \<Rightarrow> string \<Rightarrow> bool \<Rightarrow> (error + bytes option) \<times> state" where
  "findImageInCache e st folder filename isFailed =
    (case lookupPath (cache st) folder filename of
      Some cached \<Rightarrow>
        if isFailed then
          (case cached of
            Dir \<Rightarrow> (Inl EISDIR, st)
          | File b \<Rightarrow> (Inr None, st\<lparr>cache := removeFile (cache st) folder filename\<rparr>))
        else
          (case cached of
            Dir \<Rightarrow> (Inl EISDIR, st)
          | File b \<Rightarrow> (Inr (Some b), st))
    | None \<Rightarrow>
        (case orig e (folder, filename) of
          Some original \<Rightarrow>
            if isFailed then (Inl ENOENT, st)
            else copyOriginal st folder filename original
        | None \<Rightarrow>
            (case decodeURIComponent e filename of
              None \<Rightarrow> (Inl URIError, st)
            | Some decoded \<Rightarrow>
                (case orig e (folder, decoded) of
                  Some original \<Rightarrow>
                    if isFailed then (Inl ENOENT, st)
                    else copyOriginal st folder filename original
                | None \<Rightarrow> (Inr None, st)))))"

text \<open>\<open>findCacheOrFetch\<close>: cache, then originals, then a remote GET written back to the
  cache.\<close>

definition findCacheOrFetch ::
  "env \<Rightarrow> state \<Rightarrow> string \<Rightarrow> string \<Rightarrow> bool \<Rightarrow> (error + bytes) \<times> state" where
  "findCacheOrFetch e st folder url isFailed =
    (case parseURL e url of
      None \<Rightarrow> (Inl InvalidURL, st)
    | Some imageUrl \<Rightarrow>
        (let filename = lastSegment (pathname imageUrl) in
         case findImageInCache e st folder filename isFailed of
           (Inl err, st1) \<Rightarrow> (Inl err, st1)
         | (Inr (Some cachedFile), st1) \<Rightarrow> (Inr cachedFile, st1)
         | (Inr None, st1) \<Rightarrow>
             (case encodeURI e url of
               None \<Rightarrow> (Inl URIError, st1)
             | Some u \<Rightarrow>
                 (let r = httpGet e (length (trace st1)) u;
                      st2 = st1\<lparr>trace := trace st1 @ [HttpGet u r]\<rparr>
                  in case r of
                       None \<Rightarrow> (Inl GetFailed, st2)
                     | Some data \<Rightarrow>
                         (case cacheImage st2 folder filename data of
                           (Some err, st3) \<Rightarrow> (Inl err, st3)
                         | (None, st3) \<Rightarrow> (Inr data, st3))))))"

text \<open>
  The block that every media path of the script repeats after it has the bytes: name the
  form-data file after the decoded last path segment, with \<open>#\<close> replaced, and POST it
  to a media endpoint. \<open>image.data.doc.id\<close> is the result.
\<close>

definition uploadFile ::
  "env \<Rightarrow> state \<Rightarrow> string \<Rightarrow> URL \<Rightarrow> bytes \<Rightarrow> (error + string) \<times> state" where
  "uploadFile e st endpoint imageUrl imageBuffer =
    (case decodeURIComponent e (lastSegment (pathname imageUrl)) of
      None \<Rightarrow> (Inl URIError, st)
    | Some decoded \<Rightarrow>
        (let filename = replaceHash decoded;
             r = postMedia e (length (trace st)) endpoint filename imageBuffer;
             st1 = st\<lparr>trace := trace st @ [PostMedia endpoint filename imageBuffer r]\<rparr>
         in case r of
              None \<Rightarrow> (Inl UploadFailed, st1)
            | Some newId \<Rightarrow> (Inr newId, st1)))"

text \<open>The body of the \<open>try\<close> blocks for remote images: \<open>findCacheOrFetch\<close>, then the upload.\<close>

definition fetchAndUpload ::
  "env \<Rightarrow> state \<Rightarrow> string \<Rightarrow> string \<Rightarrow> URL \<Rightarrow> bool \<Rightarrow> string \<Rightarrow> (error + string) \<times> state" where
  "fetchAndUpload e st folder url imageUrl isFailed endpoint =
    (case findCacheOrFetch e st folder url isFailed of
      (Inl err, st1) \<Rightarrow> (Inl err, st1)
    | (Inr imageBuffer, st1) \<Rightarrow> uploadFile e st1 endpoint imageUrl imageBuffer)"

section \<open>Submissions\<close>

text \<open>
  \<open>migrateSubmission\<close> is one long function; the model cuts it at its four blocks. A
  block either hands the request body built so far to the next block, or ends the
  function: with \<open>Returned\<close> for a \<open>return\<close>, with \<open>Threw\<close> for an exception that
  leaves the function.
\<close>

datatype 'a step = Next 'a state | Done outcome state

definition initialSubmission :: "state \<Rightarrow> ISubmission \<Rightarrow> newSubmission" where
  "initialSubmission st s =
    \<lparr>ns_project = map_projects (mapping st) (s_project s),
     ns_type = s_type s,
     ns_author = (case s_author s of None \<Rightarrow> ''Anonymous'' | Some a \<Rightarrow> a),
     ns_subtype = s_subtype s,
     ns_message = (if truthy (s_message s) then s_message s else None),
     ns_url = None, ns_srcIcon = None, ns_media = None\<rparr>"

text \<open>Videos: a legacy-hosted video is reported missing, any other URL is carried over.\<close>

definition submissionVideo ::
  "env \<Rightarrow> state \<Rightarrow> ISubmission \<Rightarrow> newSubmission \<Rightarrow> newSubmission step" where
  "submissionVideo e st s ns =
    (if truthy (s_src s) \<and> s_type s = Video then
       (case parseURL e (assertString (s_src s)) of
         None \<Rightarrow> Done (Threw InvalidURL) st
       | Some videoUrl \<Rightarrow>
           if host videoUrl = legacyHost
           then Done Returned
                  (consoleWrite (LogError (''Missing video for '' @ s_id s))
                     (st\<lparr>missing := missing st @ [s]\<rparr>))
           else Next (ns\<lparr>ns_url := s_src s\<rparr>) st)
     else Next ns st)"

text \<open>The author icon: any exception of the fetch or the upload is logged and ends the
  function.\<close>

definition submissionIcon ::
  "env \<Rightarrow> state \<Rightarrow> ISubmission \<Rightarrow> newSubmission \<Rightarrow> newSubmission step" where
  "submissionIcon e st s ns =
    (if truthy (s_srcIcon s) then
       (case parseURL e (assertString (s_srcIcon s)) of
         None \<Rightarrow> Done (Threw InvalidURL) st
       | Some imageUrl \<Rightarrow>
           if host imageUrl \<noteq> legacyHost then
             (case fetchAndUpload e st (toString (s_project s)) (assertString (s_srcIcon s))
                     imageUrl (s_id s \<in> set (failed st)) ''/api/submission-media'' of
               (Inl err, st1) \<Rightarrow>
                 Done Returned
                   (consoleWrite (LogCaught ''Error fetching submission author icon: '' err) st1)
             | (Inr newId, st1) \<Rightarrow> Next (ns\<lparr>ns_srcIcon := Some newId\<rparr>) st1)
           else Next ns st)
     else Next ns st)"

text \<open>The \<open>catch\<close> block of the main image: two lines on the console, and the id is
  pushed onto \<open>failed\<close>.\<close>

definition submissionImageCatch :: "ISubmission \<Rightarrow> error \<Rightarrow> state \<Rightarrow> state" where
  "submissionImageCatch s err st =
    (let st1 = consoleWrite (LogError (''Below error is for: '' @ s_id s)) st;
         st2 = consoleWrite (LogCaught ''Error fetching submission image: '' err) st1
     in st2\<lparr>failed := failed st2 @ [s_id s]\<rparr>)"

text \<open>
  The main image. The URL is parsed before the \<open>try\<close>; inside it, a remote image goes
  through \<open>findCacheOrFetch\<close>, a legacy-hosted one through \<open>findImageInCache\<close> alone,
  and every exception reaches the \<open>catch\<close> block.
\<close>

definition submissionImage ::
  "env \<Rightarrow> state \<Rightarrow> ISubmission \<Rightarrow> newSubmission \<Rightarrow> newSubmission step" where
  "submissionImage e st s ns =
    (if s_type s = Image then
       (case parseURL e (assertString (s_src s)) of
         None \<Rightarrow> Done (Threw InvalidURL) st
       | Some imageUrl \<Rightarrow>
           if host imageUrl \<noteq> legacyHost then
             (case fetchAndUpload e st (toString (s_project s)) (assertString (s_src s))
                     imageUrl (s_id s \<in> set (failed st)) ''/api/submission-media'' of
               (Inl err, st1) \<Rightarrow> Done Returned (submissionImageCatch s err st1)
             | (Inr newId, st1) \<Rightarrow> Next (ns\<lparr>ns_media := Some newId\<rparr>) st1)
           else
             (case findImageInCache e st (toString (s_project s))
                     (lastSegment (pathname imageUrl)) False of
               (Inl err, st1) \<Rightarrow> Done Returned (submissionImageCatch s err st1)
             | (Inr None, st1) \<Rightarrow>
                 Done Returned
                   ((consoleWrite (Log (''Nothing found for submission: '' @ s_id s)) st1)
                      \<lparr>missing := missing st1 @ [s]\<rparr>)
             | (Inr (Some imageBuffer), st1) \<Rightarrow>
                 (case uploadFile e st1 ''/api/submission-media'' imageUrl imageBuffer of
                   (Inl err, st2) \<Rightarrow> Done Returned (submissionImageCatch s err st2)
                 | (Inr newId, st2) \<Rightarrow> Next (ns\<lparr>ns_media := Some newId\<rparr>) st2)))
     else Next ns st)"

text \<open>The creation call: a failure is logged and pushes the id onto \<open>failed\<close>, a success
  pushes it onto \<open>successfullyProcessed\<close>.\<close>

definition submissionCreate ::
  "env \<Rightarrow> state \<Rightarrow> ISubmission \<Rightarrow> newSubmission \<Rightarrow> outcome \<times> state" where
  "submissionCreate e st s ns =
    (let r = postSubmission e (length (trace st)) ns;
         st1 = st\<lparr>trace := trace st @ [PostSubmission (s_id s) ns r]\<rparr>
     in if r
        then (Returned, st1\<lparr>mapping := (mapping st1)
                \<lparr>successfullyProcessed := successfullyProcessed (mapping st1) @ [Str (s_id s)]\<rparr>\<rparr>)
        else
          (let st2 = consoleWrite (LogError (''Submission creation failed for: '' @ s_id s)) st1;
               st3 = consoleWrite (LogCaught [] CreateFailed) st2
           in (Returned, st3\<lparr>failed := failed st3 @ [s_id s]\<rparr>)))"

definition migrateSubmission :: "env \<Rightarrow> state \<Rightarrow> ISubmission \<Rightarrow> outcome \<times> state" where
  "migrateSubmission e st s =
    (if Str (s_id s) \<in> set (successfullyProcessed (mapping st)) then (Returned, st)
     else
       (case submissionVideo e st s (initialSubmission st s) of
         Done r st1 \<Rightarrow> (r, st1)
       | Next ns1 st1 \<Rightarrow>
           (case submissionIcon e st1 s ns1 of
             Done r st2 \<Rightarrow> (r, st2)
           | Next ns2 st2 \<Rightarrow>
               (case submissionImage e st2 s ns2 of
                 Done r st3 \<Rightarrow> (r, st3)
               | Next ns3 st3 \<Rightarrow> submissionCreate e st3 s ns3))))"

text \<open>\<open>for (const submission of qualifyingSubmissions) await migrateSubmission(submission)\<close>:
  an exception leaves the loop.\<close>

fun migrateSubmissions :: "env \<Rightarrow> state \<Rightarrow> ISubmission list \<Rightarrow> outcome \<times> state" where
  "migrateSubmissions e st [] = (Returned, st)"
| "migrateSubmissions e st (s # ss) =
    (case migrateSubmission e st s of
      (Threw err, st1) \<Rightarrow> (Threw err, st1)
    | (Returned, st1) \<Rightarrow> migrateSubmissions e st1 ss)"


section \<open>Projects\<close>

text \<open>
  The markdown conversion and the object literal of \<open>newProject\<close>, with the three
  optional developer properties. The conversion and the date can throw; neither is
  inside a \<open>try\<close>. \<open>JSON.stringify\<close> of the credits and of the flags is kept as the
  value it serialises.
\<close>

definition buildProject :: "env \<Rightarrow> state \<Rightarrow> IProject \<Rightarrow> error + newProject" where
  "buildProject e st p =
    (case markdownToSlate e (p_description p) of
      None \<Rightarrow> Inl MarkdownError
    | Some description \<Rightarrow>
        (case isoDate e (p_date p) of
          None \<Rightarrow> Inl InvalidDate
        | Some date \<Rightarrow>
            Inr \<lparr>np_image = DEFAULT_MEDIA e,
                 np_organizer = map_guilds (mapping st) (p_guild p),
                 np_shortDescription = p_shortDescription p,
                 np_slug = toString (p_id p),
                 np_status = p_status p,
                 np_title = p_title p,
                 np_links = map_option (map (\<lambda>l. (l_name l, l_link l))) (p_links p),
                 np_description = description,
                 np_date = date,
                 np_devprops =
                   (if truthy (p_backgroundMusic p)
                    then [(''backgroundMusic'', Raw (assertString (p_backgroundMusic p)))]
                    else [])
                   @ (case p_credits p of None \<Rightarrow> [] | Some cs \<Rightarrow> [(''credits'', JsonCredits cs)])
                   @ (case p_flags p of None \<Rightarrow> [] | Some fs \<Rightarrow> [(''flags'', JsonFlags fs)]),
                 np_ogImage = None,
                 np_media = []\<rparr>))"

definition projectOgImage ::
  "env \<Rightarrow> state \<Rightarrow> IProject \<Rightarrow> newProject \<Rightarrow> newProject step" where
  "projectOgImage e st p np =
    (if truthy (p_ogImage p) then
       (case parseURL e (assertString (p_ogImage p)) of
         None \<Rightarrow> Done (Threw InvalidURL) st
       | Some imageUrl \<Rightarrow>
           if host imageUrl \<noteq> legacyHost then
             (case fetchAndUpload e st (toString (p_id p)) (assertString (p_ogImage p))
                     imageUrl False ''/api/media'' of
               (Inl err, st1) \<Rightarrow>
                 Done Returned (consoleWrite (LogCaught ''Error fetching project icon: '' err) st1)
             | (Inr newId, st1) \<Rightarrow> Next (np\<lparr>np_ogImage := Some newId\<rparr>) st1)
           else Next np st)
     else Next np st)"

text \<open>
  One media task. \<open>Inr None\<close> is the task resolving to \<open>undefined\<close>; \<open>Inl\<close> is the
  task rejecting, which only the URL parse outside its \<open>try\<close> can cause.
\<close>

definition mediaTask ::
  "env \<Rightarrow> state \<Rightarrow> IProject \<Rightarrow> IMedia \<Rightarrow> (error + PayloadProjectMedia option) \<times> state" where
  "mediaTask e st p m =
    (case m_type m of
      Video \<Rightarrow> (Inr (Some (MediaVideo (m_src m))), st)
    | Image \<Rightarrow>
        (case parseURL e (assertString (m_src m)) of
          None \<Rightarrow> (Inl InvalidURL, st)
        | Some imageUrl \<Rightarrow>
            if host imageUrl \<noteq> legacyHost then
              (case fetchAndUpload e st (toString (p_id p)) (assertString (m_src m))
                      imageUrl False ''/api/media'' of
                (Inl err, st1) \<Rightarrow>
                  (Inr None, consoleWrite (LogCaught ''Error fetching project icon: '' err) st1)
              | (Inr newId, st1) \<Rightarrow> (Inr (Some (MediaImage newId)), st1))
            else (Inr None, st))
    | Text \<Rightarrow> (Inr None, st))"

text \<open>
  \<open>Promise.all\<close> over the media tasks, followed by the filter that drops \<open>undefined\<close>.
  The script starts every task before it awaits any of them, so the cache lookups and
  the GETs of all items come before the first upload, the replies arrive in any order,
  and after a rejection the tasks already started keep their effects. The model fixes
  one schedule: it runs the tasks one after the other in list order and stops at the
  first rejection. What it keeps of the batch is the list of results, whether a task
  rejects, and that only media events are issued; nothing below depends on the order of
  the remote calls of different media items.
\<close>

fun mediaTasks ::
  "env \<Rightarrow> state \<Rightarrow> IProject \<Rightarrow> IMedia list \<Rightarrow> (error + PayloadProjectMedia list) \<times> state" where
  "mediaTasks e st p [] = (Inr [], st)"
| "mediaTasks e st p (m # ms) =
    (case mediaTask e st p m of
      (Inl err, st1) \<Rightarrow> (Inl err, st1)
    | (Inr r, st1) \<Rightarrow>
        (case mediaTasks e st1 p ms of
          (Inl err, st2) \<Rightarrow> (Inl err, st2)
        | (Inr rs, st2) \<Rightarrow> (Inr (case r of None \<Rightarrow> rs | Some x \<Rightarrow> x # rs), st2)))"

text \<open>The loop over the submissions of a project and the line that follows it. The script
  has it twice, for a project already processed and after the creation of a project.\<close>

definition walkSubmissions ::
  "env \<Rightarrow> state \<Rightarrow> IProject \<Rightarrow> ISubmission list \<Rightarrow> outcome \<times> state" where
  "walkSubmissions e st p qualifyingSubmissions =
    (case migrateSubmissions e st qualifyingSubmissions of
      (Threw err, st1) \<Rightarrow> (Threw err, st1)
    | (Returned, st1) \<Rightarrow>
        (Returned, consoleWrite (Log (''Migrated all submissions for: '' @ p_title p)) st1))"

text \<open>The creation call of a project and, after a success, the walk over its submissions.
  \<open>.catch(console.error)\<close> logs the rejection and gives \<open>undefined\<close>.\<close>

definition projectCreate ::
  "env \<Rightarrow> state \<Rightarrow> IProject \<Rightarrow> newProject \<Rightarrow> ISubmission list \<Rightarrow> outcome \<times> state" where
  "projectCreate e st p np qualifyingSubmissions =
    (let r = postProject e (length (trace st)) np;
         st1 = st\<lparr>trace := trace st @ [PostProject (p_id p) np r]\<rparr>
     in case r of
          None \<Rightarrow>
            (Returned,
             consoleWrite
               (LogError (''Failed to create project '' @ toString (p_id p) @ '' in PayloadCMS''))
               (consoleWrite (LogCaught [] CreateFailed) st1))
        | Some newId \<Rightarrow>
            walkSubmissions e
              (st1\<lparr>mapping := (mapping st1)
                 \<lparr>map_projects := (map_projects (mapping st1))(p_id p \<mapsto> newId),
                  successfullyProcessed := successfullyProcessed (mapping st1) @ [Num (p_id p)]\<rparr>\<rparr>)
              p qualifyingSubmissions)"

definition migrateProject :: "env \<Rightarrow> state \<Rightarrow> IProject \<Rightarrow> outcome \<times> state" where
  "migrateProject e st p =
    (let qualifyingSubmissions = filter (\<lambda>s. s_project s = p_id p) (submissions e) in
     if Num (p_id p) \<in> set (successfullyProcessed (mapping st))
     then walkSubmissions e st p qualifyingSubmissions
     else
       (case buildProject e st p of
         Inl err \<Rightarrow> (Threw err, st)
       | Inr np \<Rightarrow>
           (case projectOgImage e st p np of
             Done r st1 \<Rightarrow> (r, st1)
           | Next np1 st1 \<Rightarrow>
               (case mediaTasks e st1 p (case p_media p of None \<Rightarrow> [] | Some ms \<Rightarrow> ms) of
                 (Inl err, st2) \<Rightarrow> (Threw err, st2)
               | (Inr media, st2) \<Rightarrow>
                   projectCreate e st2 p (np1\<lparr>np_media := media\<rparr>) qualifyingSubmissions))))"

text \<open>The loop over the projects of a guild, with the line it prints after each project.\<close>

fun migrateProjects :: "env \<Rightarrow> state \<Rightarrow> IProject list \<Rightarrow> outcome \<times> state" where
  "migrateProjects e st [] = (Returned, st)"
| "migrateProjects e st (p # ps) =
    (case migrateProject e st p of
      (Threw err, st1) \<Rightarrow> (Threw err, st1)
    | (Returned, st1) \<Rightarrow>
        migrateProjects e (consoleWrite (Log (''Migrated project '' @ p_title p)) st1) ps)"

section \<open>Guilds\<close>

text \<open>The URL parse and the object literal of \<open>newGuild\<close>; both can throw, outside any
  \<open>try\<close>.\<close>

definition buildGuild :: "env \<Rightarrow> IGuild \<Rightarrow> error + URL \<times> newGuild" where
  "buildGuild e g =
    (case parseURL e (g_image g) of
      None \<Rightarrow> Inl InvalidURL
    | Some imageUrl \<Rightarrow>
        (case isoDate e (g_debutDate g) of
          None \<Rightarrow> Inl InvalidDate
        | Some date \<Rightarrow>
            Inr (imageUrl,
                 \<lparr>ng_name = g_name g, ng_description = g_description g, ng_debutDate = date,
                  ng_invite = g_invite g, ng_icon = DEFAULT_MEDIA e\<rparr>)))"

definition guildIcon :: "env \<Rightarrow> state \<Rightarrow> IGuild \<Rightarrow> URL \<Rightarrow> newGuild \<Rightarrow> newGuild step" where
  "guildIcon e st g imageUrl ng =
    (if host imageUrl \<noteq> legacyHost then
       (case fetchAndUpload e st ''guilds'' (g_image g) imageUrl False ''/api/media'' of
         (Inl err, st1) \<Rightarrow>
           Done Returned (consoleWrite (LogCaught ''Error fetching guild icon: '' err) st1)
       | (Inr newId, st1) \<Rightarrow> Next (ng\<lparr>ng_icon := Some newId\<rparr>) st1)
     else Next ng st)"

definition guildCreate ::
  "env \<Rightarrow> state \<Rightarrow> IGuild \<Rightarrow> newGuild \<Rightarrow> IProject list \<Rightarrow> outcome \<times> state" where
  "guildCreate e st g ng qualifyingProjects =
    (let r = postGuild e (length (trace st)) ng;
         st1 = st\<lparr>trace := trace st @ [PostGuild (g_id g) ng r]\<rparr>
     in case r of
          None \<Rightarrow>
            (Returned,
             consoleWrite (LogError (''Failed to create guild '' @ g_id g @ '' in PayloadCMS''))
               (consoleWrite (LogCaught [] CreateFailed) st1))
        | Some newId \<Rightarrow>
            migrateProjects e
              (st1\<lparr>mapping := (mapping st1)
                 \<lparr>map_guilds := (map_guilds (mapping st1))(g_id g \<mapsto> newId),
                  successfullyProcessed := successfullyProcessed (mapping st1) @ [Str (g_id g)]\<rparr>\<rparr>)
              qualifyingProjects)"

definition migrateGuild :: "env \<Rightarrow> state \<Rightarrow> IGuild \<Rightarrow> outcome \<times> state" where
  "migrateGuild e st g =
    (let qualifyingProjects = filter (\<lambda>p. p_guild p = g_id g) (projects e) in
     if Str (g_id g) \<in> set (successfullyProcessed (mapping st))
     then migrateProjects e st qualifyingProjects
     else
       (case buildGuild e g of
         Inl err \<Rightarrow> (Threw err, st)
       | Inr (imageUrl, ng) \<Rightarrow>
           (case guildIcon e st g imageUrl ng of
             Done r st1 \<Rightarrow> (r, st1)
           | Next ng1 st1 \<Rightarrow> guildCreate e st1 g ng1 qualifyingProjects)))"

text \<open>The loop of \<open>main\<close> over all guilds, with the line it prints after each guild.\<close>

fun migrateGuilds :: "env \<Rightarrow> state \<Rightarrow> IGuild list \<Rightarrow> outcome \<times> state" where
  "migrateGuilds e st [] = (Returned, st)"
| "migrateGuilds e st (g # gs) =
    (case migrateGuild e st g of
      (Threw err, st1) \<Rightarrow> (Threw err, st1)
    | (Returned, st1) \<Rightarrow>
        migrateGuilds e (consoleWrite (Log (''Migrated guild '' @ g_name g)) st1) gs)"

section \<open>The run and its durable files\<close>

text \<open>\<open>./data/idmap.json\<close>, \<open>./data/missing.json\<close> and \<open>./data/failed.json\<close>. The two
  auto-save files of the interval timer are written only and never read; they are left
  out.\<close>

record disk =
  idmap_json :: IMapping
  missing_json :: "ISubmission list"
  failed_json :: "string list"

text \<open>The globals as the script initialises them when the module is loaded.\<close>

definition startup :: "disk \<Rightarrow> (string \<rightharpoonup> (string \<rightharpoonup> bytes)) \<Rightarrow> state" where
  "startup d c =
    \<lparr>mapping = idmap_json d, failed = failed_json d, missing = [], cache = c, trace = [],
     console = []\<rparr>"

text \<open>\<open>main\<close>: the walk over all guilds, then the three writes. An exception of the walk
  rejects the promise of \<open>main\<close> before any of its writes.\<close>

definition main :: "env \<Rightarrow> state \<Rightarrow> disk \<Rightarrow> outcome \<times> state \<times> disk" where
  "main e st d =
    (case migrateGuilds e (consoleWrite (Log ''Starting migration'') st) (guilds e) of
      (Threw err, st1) \<Rightarrow> (Threw err, st1, d)
    | (Returned, st1) \<Rightarrow>
        (let st2 = consoleWrite (Log ''Done!'') st1 in
         (Returned, consoleWrite (Log ''Written id map to disk'') st2,
          d\<lparr>idmap_json := mapping st2, missing_json := missing st2,
            failed_json := failed st2\<rparr>)))"

text \<open>The anonymous listener of the \<open>exit\<close> event: two writes and a line on the console.
  The first three lines of \<open>exitHandler\<close> are the same.\<close>

definition onExit :: "state \<Rightarrow> disk \<Rightarrow> state \<times> disk" where
  "onExit st d =
    (consoleWrite (Log ''Written id map to disk'') st,
     d\<lparr>idmap_json := mapping st, missing_json := missing st\<rparr>)"

text \<open>The two listeners of the \<open>exit\<close> event in the order of their registration: the
  anonymous one, then \<open>exitHandler\<close>, whose \<open>process.exit()\<close> ends a process that is
  exiting already.\<close>

definition exitListeners :: "state \<Rightarrow> disk \<Rightarrow> state \<times> disk" where
  "exitListeners st d = (case onExit st d of (st1, d1) \<Rightarrow> onExit st1 d1)"

text \<open>\<open>exitHandler\<close> as the listener of \<open>SIGINT\<close>, \<open>SIGUSR1\<close>, \<open>SIGUSR2\<close> and
  \<open>uncaughtException\<close>: its writes and its line, then \<open>process.exit()\<close>, which runs the
  \<open>exit\<close> listeners.\<close>

definition exitHandler :: "state \<Rightarrow> disk \<Rightarrow> state \<times> disk" where
  "exitHandler st d = (case onExit st d of (st1, d1) \<Rightarrow> exitListeners st1 d1)"

definition configOk :: "env \<Rightarrow> bool" where
  "configOk e = (truthy (CMS_URL e) \<and> truthy (API_KEY e) \<and> truthy (BYPASS_KEY e)
     \<and> truthy (DEFAULT_MEDIA e))"

text \<open>
  The whole script: the check of the environment variables (it throws before any
  listener is registered), then \<open>main\<close>. After \<open>main\<close> has returned, the process ends
  through its \<open>exit\<close> listeners; a rejection of \<open>main\<close> reaches \<open>exitHandler\<close> as an
  uncaught exception.
\<close>

definition script ::
  "env \<Rightarrow> disk \<Rightarrow> (string \<rightharpoonup> (string \<rightharpoonup> bytes)) \<Rightarrow> outcome \<times> state \<times> disk" where
  "script e d c =
    (if \<not> configOk e then (Threw ConfigError, startup d c, d)
     else
       (case main e (startup d c) d of
         (Returned, st1, d1) \<Rightarrow> (Returned, exitListeners st1 d1)
       | (Threw err, st1, d1) \<Rightarrow> (Threw err, exitHandler st1 d1)))"

section \<open>Observations on traces\<close>

text \<open>The events issued between two states of one run.\<close>

definition issued :: "state \<Rightarrow> state \<Rightarrow> event list" where
  "issued st st' = drop (length (trace st)) (trace st')"

text \<open>The legacy id an entity-creation call is for, and the id of a call that succeeded.\<close>

fun creation :: "event \<Rightarrow> jsval option" where
  "creation (PostGuild g ng r) = Some (Str g)"
| "creation (PostProject p np r) = Some (Num p)"
| "creation (PostSubmission s ns r) = Some (Str s)"
| "creation ev = None"

fun created :: "event \<Rightarrow> jsval option" where
  "created (PostGuild g ng (Some newId)) = Some (Str g)"
| "created (PostProject p np (Some newId)) = Some (Num p)"
| "created (PostSubmission s ns True) = Some (Str s)"
| "created ev = None"

text \<open>A media event: an upload, or a GET of a URL that \<open>ok\<close> admits.\<close>

fun media_event :: "(string \<Rightarrow> bool) \<Rightarrow> event \<Rightarrow> bool" where
  "media_event ok (HttpGet u r) = ok u"
| "media_event ok (PostMedia ep fn b r) = True"
| "media_event ok ev = False"

text \<open>A stretch of the run that touches neither the mapping nor the failed and missing
  lists and issues media events only.\<close>

definition media_only :: "(string \<Rightarrow> bool) \<Rightarrow> state \<Rightarrow> state \<Rightarrow> bool" where
  "media_only ok st st' =
    (mapping st' = mapping st \<and> failed st' = failed st \<and> missing st' = missing st
     \<and> (\<exists>t. trace st' = trace st @ t \<and> list_all (media_event ok) t))"

text \<open>
  A stretch of the run that only adds to \<open>successfullyProcessed\<close>, issues creation calls
  only for ids not processed at its start, and has recorded every successful creation
  at its end.
\<close>

definition walk_ok :: "state \<Rightarrow> state \<Rightarrow> bool" where
  "walk_ok st st' =
    (set (successfullyProcessed (mapping st)) \<subseteq> set (successfullyProcessed (mapping st'))
     \<and> (\<exists>t. trace st' = trace st @ t
          \<and> list_all (\<lambda>ev. case creation ev of None \<Rightarrow> True
                | Some x \<Rightarrow> x \<notin> set (successfullyProcessed (mapping st))) t
          \<and> list_all (\<lambda>ev. case created ev of None \<Rightarrow> True
                | Some x \<Rightarrow> x \<in> set (successfullyProcessed (mapping st'))) t))"

text \<open>The state a block of \<open>migrateSubmission\<close>, \<open>migrateProject\<close> or \<open>migrateGuild\<close>
  leaves behind, whichever way it ends.\<close>

fun step_state :: "'a step \<Rightarrow> state" where
  "step_state (Next a st) = st"
| "step_state (Done r st) = st"

text \<open>A stretch of the run that leaves the mapping alone and issues no creation call.\<close>

definition mapping_kept :: "state \<Rightarrow> state \<Rightarrow> bool" where
  "mapping_kept st st' =
    (mapping st' = mapping st
     \<and> (\<exists>t. trace st' = trace st @ t \<and> list_all (\<lambda>ev. creation ev = None) t))"

text \<open>
  The GETs a submission can cause: one for its author icon, when the icon is present
  and not on the legacy host, and one for its main image, when the submission is an
  image that is not on the legacy host. The URL requested is \<open>encodeURI\<close> of the field.
\<close>

definition authorIconGet :: "env \<Rightarrow> ISubmission \<Rightarrow> string \<Rightarrow> bool" where
  "authorIconGet e s u =
    (truthy (s_srcIcon s) \<and> encodeURI e (assertString (s_srcIcon s)) = Some u
     \<and> (\<exists>iconUrl. parseURL e (assertString (s_srcIcon s)) = Some iconUrl
            \<and> host iconUrl \<noteq> legacyHost))"

definition remoteImageGet :: "env \<Rightarrow> ISubmission \<Rightarrow> string \<Rightarrow> bool" where
  "remoteImageGet e s u =
    (s_type s = Image \<and> encodeURI e (assertString (s_src s)) = Some u
     \<and> (\<exists>imageUrl. parseURL e (assertString (s_src s)) = Some imageUrl
            \<and> host imageUrl \<noteq> legacyHost))"

definition submissionGet :: "env \<Rightarrow> ISubmission \<Rightarrow> string \<Rightarrow> bool" where
  "submissionGet e s u = (authorIconGet e s u \<or> remoteImageGet e s u)"

text \<open>Events that the walk over submissions can issue: everything but the creation of a
  guild or of a project.\<close>

fun submission_level :: "event \<Rightarrow> bool" where
  "submission_level (PostGuild g ng r) = False"
| "submission_level (PostProject p np r) = False"
| "submission_level ev = True"

section \<open>A small legacy snapshot\<close>

text \<open>Concrete inputs on which the statements below are exercised. The URL table stands
  for \<open>new URL\<close> on five well-formed URLs; every other string fails to parse.\<close>

definition exampleURL :: "string \<Rightarrow> URL option" where
  "exampleURL = map_of
    [(''https://cdn.example/icons/a.png'', \<lparr>host = ''cdn.example'', pathname = ''/icons/a.png''\<rparr>),
     (''https://cdn.example/art/b.png'', \<lparr>host = ''cdn.example'', pathname = ''/art/b.png''\<rparr>),
     (''https://s3.fr-par.scw.cloud/bucket/c.png'',
        \<lparr>host = ''s3.fr-par.scw.cloud'', pathname = ''/bucket/c.png''\<rparr>),
     (''https://s3.fr-par.scw.cloud/bucket/'',
        \<lparr>host = ''s3.fr-par.scw.cloud'', pathname = ''/bucket/''\<rparr>),
     (''https://video.example/watch'', \<lparr>host = ''video.example'', pathname = ''/watch''\<rparr>)]"

definition exampleEnv :: env where
  "exampleEnv =
    \<lparr>CMS_URL = Some ''http://cms'', API_KEY = Some ''key'', BYPASS_KEY = Some ''bypass'',
     DEFAULT_MEDIA = Some ''default'', guilds = [], projects = [], submissions = [],
     orig = Map.empty, parseURL = exampleURL, decodeURIComponent = Some, encodeURI = Some,
     isoDate = Some, markdownToSlate = Some,
     httpGet = (\<lambda>n u. Some [1, 2, 3]),
     postMedia = (\<lambda>n ep fn b. Some ''media1''),
     postGuild = (\<lambda>n g. Some ''guild1''),
     postProject = (\<lambda>n p. Some ''project1''),
     postSubmission = (\<lambda>n s. True)\<rparr>"

definition exampleSubmission :: ISubmission where
  "exampleSubmission =
    \<lparr>s_id = ''s1'', s_project = 7, s_author = None, s_srcIcon = None, s_type = Text,
     s_subtype = None, s_src = None, s_message = Some ''hello''\<rparr>"

definition exampleProject :: IProject where
  "exampleProject =
    \<lparr>p_id = 7, p_status = Past, p_guild = ''g1'', p_media = None, p_title = ''Project'',
     p_shortDescription = ''short'', p_description = ''long'', p_links = None,
     p_date = ''1609459200000'', p_flags = None, p_ogImage = None, p_backgroundMusic = None,
     p_credits = None\<rparr>"

definition exampleGuild :: IGuild where
  "exampleGuild =
    \<lparr>g_id = ''g1'', g_name = ''Guild'', g_description = ''d'',
     g_image = ''https://s3.fr-par.scw.cloud/bucket/c.png'', g_invite = ''inv'',
     g_debutDate = ''1609459200000'', g_color = None\<rparr>"

definition emptyMapping :: IMapping where
  "emptyMapping = \<lparr>map_guilds = Map.empty, map_projects = Map.empty, successfullyProcessed = []\<rparr>"

definition emptyDisk :: disk where
  "emptyDisk = \<lparr>idmap_json = emptyMapping, missing_json = [], failed_json = []\<rparr>"

definition emptyState :: state where
  "emptyState = startup emptyDisk Map.empty"

definition failingCreateEnv :: env where
  "failingCreateEnv = exampleEnv\<lparr>postSubmission := (\<lambda>n s. False)\<rparr>"

definition iconSubmission :: ISubmission where
  "iconSubmission = exampleSubmission\<lparr>s_srcIcon := Some ''https://cdn.example/icons/a.png''\<rparr>"

definition remoteVideo :: ISubmission where
  "remoteVideo = exampleSubmission\<lparr>s_type := Video, s_src := Some ''https://video.example/watch''\<rparr>"

definition legacyVideo :: ISubmission where
  "legacyVideo = exampleSubmission
     \<lparr>s_type := Video, s_src := Some ''https://s3.fr-par.scw.cloud/bucket/c.png''\<rparr>"

definition legacyImage :: ISubmission where
  "legacyImage = exampleSubmission
     \<lparr>s_type := Image, s_src := Some ''https://s3.fr-par.scw.cloud/bucket/c.png''\<rparr>"

definition remoteImage :: ISubmission where
  "remoteImage = exampleSubmission
     \<lparr>s_type := Image, s_src := Some ''https://cdn.example/art/b.png''\<rparr>"

text \<open>An image on the legacy host whose URL path ends in a slash, and a state in which the
  cache directory of its project exists.\<close>

definition slashImage :: ISubmission where
  "slashImage = exampleSubmission
     \<lparr>s_type := Image, s_src := Some ''https://s3.fr-par.scw.cloud/bucket/''\<rparr>"

definition folderState :: state where
  "folderState = emptyState\<lparr>cache := [''7'' \<mapsto> Map.empty]\<rparr>"

text \<open>A video whose source has no scheme, so that \<open>new URL\<close> rejects it, and a snapshot in
  which it comes before the well-formed submission of the same project.\<close>

definition schemelessVideo :: ISubmission where
  "schemelessVideo = exampleSubmission
     \<lparr>s_id := ''s0'', s_type := Video, s_src := Some ''video.example/watch''\<rparr>"

definition schemelessVideoEnv :: env where
  "schemelessVideoEnv = exampleEnv
     \<lparr>guilds := [exampleGuild], projects := [exampleProject],
      submissions := [schemelessVideo, exampleSubmission]\<rparr>"

definition failingGetEnv :: env where
  "failingGetEnv = exampleEnv\<lparr>httpGet := (\<lambda>n u. None)\<rparr>"

definition staleState :: state where
  "staleState = emptyState
     \<lparr>failed := [''s1''],
      cache := [''7'' \<mapsto> [''c.png'' \<mapsto> [9, 9], ''b.png'' \<mapsto> [9, 9]]]\<rparr>"

definition failingProjectEnv :: env where
  "failingProjectEnv = exampleEnv\<lparr>submissions := [exampleSubmission], postProject := (\<lambda>n p. None)\<rparr>"

text \<open>A snapshot of one guild with one project and one submission; a second environment
  in which every creation call of a submission fails; a first run against the second
  and a second run, from the files of the first, against the first.\<close>

definition fullEnv :: env where
  "fullEnv = exampleEnv
     \<lparr>guilds := [exampleGuild], projects := [exampleProject], submissions := [exampleSubmission]\<rparr>"

definition flakyEnv :: env where
  "flakyEnv = fullEnv\<lparr>postSubmission := (\<lambda>n s. False)\<rparr>"

definition firstRun :: "outcome \<times> state \<times> disk" where
  "firstRun = main flakyEnv (startup emptyDisk Map.empty) emptyDisk"

definition secondRun :: "outcome \<times> state \<times> disk" where
  "secondRun = main fullEnv (startup (snd (snd firstRun)) Map.empty) (snd (snd firstRun))"

text \<open>A guild whose image is not a URL, placed before the well-formed guild.\<close>

definition badGuild :: IGuild where
  "badGuild = exampleGuild\<lparr>g_id := ''g0'', g_image := ''not a url''\<rparr>"

definition badGuildEnv :: env where
  "badGuildEnv = fullEnv\<lparr>guilds := [badGuild, exampleGuild]\<rparr>"

lemmas example_defs =
  exampleURL_def exampleEnv_def exampleSubmission_def exampleProject_def exampleGuild_def
  emptyMapping_def emptyDisk_def emptyState_def startup_def legacyHost_def

lemmas submission_defs =
  migrateSubmission_def initialSubmission_def submissionVideo_def submissionIcon_def
  submissionImage_def submissionCreate_def fetchAndUpload_def findCacheOrFetch_def
  findImageInCache_def copyOriginal_def uploadFile_def cacheImage_def lookupPath_def
  isDirName_def removeFile_def storeFile_def lastSegment_def replaceHash_def
  toString_def digits.simps digitChar_def consoleWrite_def submissionImageCatch_def

lemmas walk_defs = main_def migrateGuild_def buildGuild_def guildIcon_def guildCreate_def
  migrateProject_def buildProject_def projectOgImage_def mediaTask_def projectCreate_def
  walkSubmissions_def Let_def

lemmas project_defs = migrateProject_def buildProject_def projectOgImage_def mediaTask_def
  projectCreate_def walkSubmissions_def consoleWrite_def

section \<open>What the media helpers and the blocks of a submission leave unchanged\<close>

lemma consoleWrite_simps [simp]:
  "mapping (consoleWrite l st) = mapping st"
  "failed (consoleWrite l st) = failed st"
  "missing (consoleWrite l st) = missing st"
  "cache (consoleWrite l st) = cache st"
  "trace (consoleWrite l st) = trace st"
  "console (consoleWrite l st) = console st @ [l]"
  by (simp_all add: consoleWrite_def)

lemma submissionImageCatch_simps [simp]:
  "mapping (submissionImageCatch s err st) = mapping st"
  "failed (submissionImageCatch s err st) = failed st @ [s_id s]"
  "missing (submissionImageCatch s err st) = missing st"
  "cache (submissionImageCatch s err st) = cache st"
  "trace (submissionImageCatch s err st) = trace st"
  by (simp_all add: submissionImageCatch_def Let_def)

lemma issued_consoleWrite [simp]:
  "issued st (consoleWrite l st') = issued st st'"
  "issued (consoleWrite l st) st' = issued st st'"
  by (simp_all add: issued_def)

lemma media_only_consoleWrite [simp]:
  "media_only ok st (consoleWrite l st') = media_only ok st st'"
  "media_only ok (consoleWrite l st) st' = media_only ok st st'"
  by (simp_all add: media_only_def)

lemma mapping_kept_consoleWrite [simp]:
  "mapping_kept st (consoleWrite l st') = mapping_kept st st'"
  "mapping_kept (consoleWrite l st) st' = mapping_kept st st'"
  by (simp_all add: mapping_kept_def)

lemma walk_ok_consoleWrite [simp]:
  "walk_ok st (consoleWrite l st') = walk_ok st st'"
  "walk_ok (consoleWrite l st) st' = walk_ok st st'"
  by (simp_all add: walk_ok_def cong: option.case_cong)

lemma issued_append: "trace st' = trace st @ t \<Longrightarrow> issued st st' = t"
  by (simp add: issued_def)

lemma media_event_creation: "media_event ok ev \<Longrightarrow> creation ev = None"
  by (cases ev) simp_all

lemma media_event_mono: "media_event ok ev \<Longrightarrow> (\<And>u. ok u \<Longrightarrow> ok' u) \<Longrightarrow> media_event ok' ev"
  by (cases ev) simp_all

lemma list_all_media_mono:
  "list_all (media_event ok) t \<Longrightarrow> (\<And>u. ok u \<Longrightarrow> ok' u) \<Longrightarrow> list_all (media_event ok') t"
  by (auto simp: list_all_iff intro: media_event_mono)

lemma media_only_refl: "media_only ok st st"
  by (simp add: media_only_def)

lemma media_only_trans:
  "media_only ok a b \<Longrightarrow> media_only ok b c \<Longrightarrow> media_only ok a c"
  by (auto simp: media_only_def)

lemma media_only_mono:
  "media_only ok a b \<Longrightarrow> (\<And>u. ok u \<Longrightarrow> ok' u) \<Longrightarrow> media_only ok' a b"
  by (auto simp: media_only_def list_all_iff intro: media_event_mono)

lemma media_only_kept: "media_only ok a b \<Longrightarrow> mapping_kept a b"
  by (auto simp: media_only_def mapping_kept_def list_all_iff intro: media_event_creation)

lemma mapping_kept_refl: "mapping_kept st st"
  by (simp add: mapping_kept_def)

lemma mapping_kept_trans: "mapping_kept a b \<Longrightarrow> mapping_kept b c \<Longrightarrow> mapping_kept a c"
  by (auto simp: mapping_kept_def)

lemma cacheImage_frame:
  "cacheImage st folder filename file = (r, st') \<Longrightarrow>
     mapping st' = mapping st \<and> failed st' = failed st \<and> missing st' = missing st
     \<and> trace st' = trace st"
  by (auto simp: cacheImage_def Let_def split: if_splits)

lemma copyOriginal_frame:
  "copyOriginal st folder filename original = (r, st') \<Longrightarrow>
     mapping st' = mapping st \<and> failed st' = failed st \<and> missing st' = missing st
     \<and> trace st' = trace st"
  by (auto simp: copyOriginal_def split: node.splits prod.splits option.splits
      dest!: cacheImage_frame)

lemma copyOriginal_found: "copyOriginal st folder filename original \<noteq> (Inr None, st')"
  by (auto simp: copyOriginal_def split: node.splits prod.splits option.splits)

lemma findImageInCache_frame:
  "findImageInCache e st folder filename f = (r, st') \<Longrightarrow>
     mapping st' = mapping st \<and> failed st' = failed st \<and> missing st' = missing st
     \<and> trace st' = trace st"
  by (auto simp: findImageInCache_def split: option.splits if_splits node.splits
      dest!: copyOriginal_frame)

lemma findImageInCache_miss:
  "findImageInCache e st folder filename False = (Inr None, st') \<Longrightarrow> st' = st"
  by (auto simp: findImageInCache_def copyOriginal_found split: option.splits node.splits)

lemma findCacheOrFetch_frame:
  "findCacheOrFetch e st folder url f = (r, st') \<Longrightarrow>
     media_only (\<lambda>u. encodeURI e url = Some u) st st'"
  by (auto simp: findCacheOrFetch_def Let_def media_only_def
      dest!: findImageInCache_frame cacheImage_frame
      split: option.splits prod.splits sum.splits)

lemma uploadFile_frame:
  "uploadFile e st ep iu b = (r, st') \<Longrightarrow> media_only ok st st'"
  by (auto simp: uploadFile_def Let_def media_only_def split: option.splits)

lemma fetchAndUpload_frame:
  "fetchAndUpload e st folder url iu f ep = (r, st') \<Longrightarrow>
     media_only (\<lambda>u. encodeURI e url = Some u) st st'"
  by (auto simp: fetchAndUpload_def split: prod.splits sum.splits
      dest!: findCacheOrFetch_frame uploadFile_frame [where ok = "\<lambda>u. encodeURI e url = Some u"]
      intro: media_only_trans)


lemma submissionVideo_Next:
  "submissionVideo e st s ns = Next ns' st' \<Longrightarrow>
     st' = st \<and> ns' = (if truthy (s_src s) \<and> s_type s = Video then ns\<lparr>ns_url := s_src s\<rparr> else ns)"
  by (auto simp: submissionVideo_def split: if_splits option.splits)

lemma submissionVideo_Done:
  "submissionVideo e st s ns = Done r st' \<Longrightarrow>
     trace st' = trace st \<and> mapping st' = mapping st \<and> failed st' = failed st"
  by (auto simp: submissionVideo_def split: if_splits option.splits)

lemma submissionIcon_frame:
  "media_only (authorIconGet e s) st (step_state (submissionIcon e st s ns))"
proof (cases "truthy (s_srcIcon s)")
  case False
  then show ?thesis by (simp add: submissionIcon_def media_only_refl)
next
  case True
  show ?thesis
  proof (cases "parseURL e (assertString (s_srcIcon s))")
    case None
    with True show ?thesis by (simp add: submissionIcon_def media_only_refl)
  next
    case (Some imageUrl)
    show ?thesis
    proof (cases "host imageUrl = legacyHost")
      case True
      with \<open>truthy (s_srcIcon s)\<close> Some show ?thesis
        by (simp add: submissionIcon_def media_only_refl)
    next
      case False
      obtain r st1 where f: "fetchAndUpload e st (toString (s_project s))
          (assertString (s_srcIcon s)) imageUrl (s_id s \<in> set (failed st))
          ''/api/submission-media'' = (r, st1)"
        by (cases "fetchAndUpload e st (toString (s_project s))
          (assertString (s_srcIcon s)) imageUrl (s_id s \<in> set (failed st))
          ''/api/submission-media''") auto
      have "media_only (authorIconGet e s) st st1"
        using fetchAndUpload_frame [OF f] True Some False
        by (auto elim!: media_only_mono simp: authorIconGet_def)
      with True Some False f show ?thesis
        by (cases r) (simp_all add: submissionIcon_def)
    qed
  qed
qed

lemma submissionIcon_Next:
  "submissionIcon e st s ns = Next ns' st' \<Longrightarrow> ns_url ns' = ns_url ns"
  by (auto simp: submissionIcon_def split: if_splits option.splits prod.splits sum.splits)

lemma submissionImage_trace:
  "\<exists>t. trace (step_state (submissionImage e st s ns)) = trace st @ t
       \<and> list_all (media_event (remoteImageGet e s)) t
       \<and> mapping (step_state (submissionImage e st s ns)) = mapping st"
proof (cases "s_type s = Image")
  case False
  then show ?thesis by (simp add: submissionImage_def)
next
  case True
  show ?thesis
  proof (cases "parseURL e (assertString (s_src s))")
    case None
    with True show ?thesis by (simp add: submissionImage_def)
  next
    case (Some imageUrl)
    show ?thesis
    proof (cases "host imageUrl = legacyHost")
      case False
      obtain r st1 where f: "fetchAndUpload e st (toString (s_project s))
          (assertString (s_src s)) imageUrl (s_id s \<in> set (failed st))
          ''/api/submission-media'' = (r, st1)"
        by (cases "fetchAndUpload e st (toString (s_project s))
          (assertString (s_src s)) imageUrl (s_id s \<in> set (failed st))
          ''/api/submission-media''") auto
      have "media_only (remoteImageGet e s) st st1"
        using fetchAndUpload_frame [OF f] True Some False
        by (auto elim!: media_only_mono simp: remoteImageGet_def)
      with True Some False f show ?thesis
        by (cases r) (auto simp: submissionImage_def media_only_def)
    next
      case legacy: True
      obtain r st1 where f: "findImageInCache e st (toString (s_project s))
          (lastSegment (pathname imageUrl)) False = (r, st1)"
        by (cases "findImageInCache e st (toString (s_project s))
          (lastSegment (pathname imageUrl)) False") auto
      note fr = findImageInCache_frame [OF f]
      show ?thesis
      proof (cases r)
        case (Inl err)
        with True Some legacy f fr show ?thesis by (simp add: submissionImage_def)
      next
        case (Inr found)
        show ?thesis
        proof (cases found)
          case None
          with Inr True Some legacy f fr show ?thesis by (simp add: submissionImage_def)
        next
          case (Some imageBuffer)
          obtain r2 st2 where u: "uploadFile e st1 ''/api/submission-media'' imageUrl imageBuffer
              = (r2, st2)"
            by (cases "uploadFile e st1 ''/api/submission-media'' imageUrl imageBuffer") auto
          from uploadFile_frame [OF u, of "remoteImageGet e s"] fr
          have "\<exists>t. trace st2 = trace st @ t \<and> list_all (media_event (remoteImageGet e s)) t"
            and "mapping st2 = mapping st"
            by (auto simp: media_only_def)
          with Some Inr True \<open>parseURL e (assertString (s_src s)) = Some imageUrl\<close> legacy f u
          show ?thesis
            by (cases r2) (auto simp: submissionImage_def)
        qed
      qed
    qed
  qed
qed

lemma submissionImage_Next:
  "submissionImage e st s ns = Next ns' st' \<Longrightarrow>
     failed st' = failed st \<and> missing st' = missing st \<and> ns_url ns' = ns_url ns"
  by (auto simp: submissionImage_def media_only_def
      split: if_splits option.splits prod.splits sum.splits
      dest!: fetchAndUpload_frame findImageInCache_frame uploadFile_frame [where ok = "\<lambda>u. True"])


lemma submissionCreate_result:
  "submissionCreate e st s ns = (r, st') \<Longrightarrow>
     r = Returned \<and> missing st' = missing st
     \<and> trace st' = trace st @ [PostSubmission (s_id s) ns (postSubmission e (length (trace st)) ns)]
     \<and> (if postSubmission e (length (trace st)) ns
         then failed st' = failed st
            \<and> mapping st' = (mapping st)\<lparr>successfullyProcessed :=
                 successfullyProcessed (mapping st) @ [Str (s_id s)]\<rparr>
         else failed st' = failed st @ [s_id s] \<and> mapping st' = mapping st)"
  by (auto simp: submissionCreate_def Let_def split: if_splits)

lemma migrateSubmission_cases:
  assumes run: "migrateSubmission e st s = (r, st')"
  shows "(Str (s_id s) \<in> set (successfullyProcessed (mapping st)) \<and> st' = st \<and> r = Returned)
    \<or> (Str (s_id s) \<notin> set (successfullyProcessed (mapping st)) \<and> mapping st' = mapping st
        \<and> (\<exists>t. trace st' = trace st @ t \<and> list_all (media_event (submissionGet e s)) t))
    \<or> (Str (s_id s) \<notin> set (successfullyProcessed (mapping st))
        \<and> (\<exists>st3 ns3. media_only (submissionGet e s) st st3
              \<and> submissionCreate e st3 s ns3 = (r, st')
              \<and> ns_url ns3 = (if truthy (s_src s) \<and> s_type s = Video then s_src s else None)))"
proof (cases "Str (s_id s) \<in> set (successfullyProcessed (mapping st))")
  case True
  with run show ?thesis by (simp add: migrateSubmission_def)
next
  case np: False
  show ?thesis
  proof (cases "submissionVideo e st s (initialSubmission st s)")
    case (Done r1 st1)
    with run np have "r = r1" "st' = st1" by (simp_all add: migrateSubmission_def)
    with submissionVideo_Done [OF Done] np show ?thesis by simp
  next
    case v: (Next ns1 st1)
    from submissionVideo_Next [OF v]
    have st1: "st1 = st"
      and u1: "ns_url ns1 = (if truthy (s_src s) \<and> s_type s = Video then s_src s else None)"
      by (simp_all add: initialSubmission_def)
    have icon: "media_only (submissionGet e s) st (step_state (submissionIcon e st s ns1))"
      by (rule media_only_mono [OF submissionIcon_frame]) (simp add: submissionGet_def)
    show ?thesis
    proof (cases "submissionIcon e st s ns1")
      case (Done r2 st2)
      with run np v st1 have "r = r2" "st' = st2" by (simp_all add: migrateSubmission_def)
      with icon Done np show ?thesis by (auto simp: media_only_def)
    next
      case i: (Next ns2 st2)
      from icon i have m2: "media_only (submissionGet e s) st st2" by simp
      from submissionIcon_Next [OF i] u1
      have u2: "ns_url ns2 = (if truthy (s_src s) \<and> s_type s = Video then s_src s else None)"
        by simp
      obtain t3 where t3: "trace (step_state (submissionImage e st2 s ns2)) = trace st2 @ t3"
        "list_all (media_event (remoteImageGet e s)) t3"
        "mapping (step_state (submissionImage e st2 s ns2)) = mapping st2"
        using submissionImage_trace [of e st2 s ns2] by blast
      have t3': "list_all (media_event (submissionGet e s)) t3"
        by (rule list_all_media_mono [OF t3(2)]) (simp add: submissionGet_def)
      show ?thesis
      proof (cases "submissionImage e st2 s ns2")
        case (Done r3 st3)
        with run np v st1 i have "r = r3" "st' = st3" by (simp_all add: migrateSubmission_def)
        with Done t3 t3' m2 np show ?thesis by (auto simp: media_only_def)
      next
        case g: (Next ns3 st3)
        with run np v st1 i have c: "submissionCreate e st3 s ns3 = (r, st')"
          by (simp add: migrateSubmission_def)
        from submissionImage_Next [OF g] g t3 t3' m2
        have "media_only (submissionGet e s) st st3" by (auto simp: media_only_def)
        moreover from submissionImage_Next [OF g] u2
        have "ns_url ns3 = (if truthy (s_src s) \<and> s_type s = Video then s_src s else None)"
          by simp
        ultimately show ?thesis using np c by blast
      qed
    qed
  qed
qed

section \<open>The walk: what it records and which creation calls it issues\<close>

lemma list_all_mem: "list_all P t \<Longrightarrow> x \<in> set t \<Longrightarrow> P x"
  by (simp add: list_all_iff)

lemma created_creation: "created ev = Some x \<Longrightarrow> creation ev = Some x"
  by (cases ev rule: created.cases) simp_all

lemma walk_ok_refl: "walk_ok st st"
  by (simp add: walk_ok_def)

lemma walk_ok_trans:
  assumes "walk_ok a b" "walk_ok b c"
  shows "walk_ok a c"
  using assms unfolding walk_ok_def
  by (auto simp: list_all_iff split: option.splits)

lemma mapping_kept_walk: "mapping_kept a b \<Longrightarrow> walk_ok a b"
  by (auto simp: mapping_kept_def walk_ok_def list_all_iff split: option.splits
      dest!: created_creation)

lemma media_event_submission_level: "media_event ok ev \<Longrightarrow> submission_level ev"
  by (cases ev) simp_all

lemma migrateSubmission_walk:
  assumes run: "migrateSubmission e st s = (r, st')"
  shows "walk_ok st st'"
proof -
  from migrateSubmission_cases [OF run]
  consider (processed) "st' = st"
    | (stopped) t where "mapping st' = mapping st" "trace st' = trace st @ t"
        "list_all (media_event (submissionGet e s)) t"
    | (posted) st3 ns3 where "Str (s_id s) \<notin> set (successfullyProcessed (mapping st))"
        "media_only (submissionGet e s) st st3" "submissionCreate e st3 s ns3 = (r, st')"
    by blast
  then show ?thesis
  proof cases
    case processed
    then show ?thesis by (simp add: walk_ok_refl)
  next
    case stopped
    then have "mapping_kept st st'"
      by (auto simp: mapping_kept_def list_all_iff intro: media_event_creation)
    then show ?thesis by (rule mapping_kept_walk)
  next
    case posted
    have a: "walk_ok st st3"
      by (rule mapping_kept_walk [OF media_only_kept [OF posted(2)]])
    from posted(2) have k: "mapping st3 = mapping st" by (simp add: media_only_def)
    from submissionCreate_result [OF posted(3)] posted(1) k
    have "walk_ok st3 st'"
      by (auto simp: walk_ok_def split: if_splits)
    with a show ?thesis by (rule walk_ok_trans)
  qed
qed

lemma migrateSubmission_events:
  assumes run: "migrateSubmission e st s = (r, st')"
  shows "\<exists>t. trace st' = trace st @ t \<and> list_all submission_level t"
proof -
  from migrateSubmission_cases [OF run]
  consider (processed) "st' = st"
    | (stopped) t where "trace st' = trace st @ t"
        "list_all (media_event (submissionGet e s)) t"
    | (posted) st3 ns3 where
        "media_only (submissionGet e s) st st3" "submissionCreate e st3 s ns3 = (r, st')"
    by blast
  then show ?thesis
  proof cases
    case processed
    then show ?thesis by simp
  next
    case stopped
    then show ?thesis
      by (auto simp: list_all_iff intro: media_event_submission_level)
  next
    case posted
    from posted(1) obtain t where "trace st3 = trace st @ t"
      "list_all (media_event (submissionGet e s)) t"
      by (auto simp: media_only_def)
    with submissionCreate_result [OF posted(2)] show ?thesis
      by (auto simp: list_all_iff intro: media_event_submission_level)
  qed
qed

lemma migrateSubmissions_walk:
  "migrateSubmissions e st ss = (r, st') \<Longrightarrow> walk_ok st st'"
proof (induction ss arbitrary: st)
  case Nil
  then show ?case by (simp add: walk_ok_refl)
next
  case (Cons s ss)
  obtain r1 st1 where m: "migrateSubmission e st s = (r1, st1)"
    by (cases "migrateSubmission e st s") auto
  note w = migrateSubmission_walk [OF m]
  show ?case
  proof (cases r1)
    case Returned
    with Cons.prems m have "migrateSubmissions e st1 ss = (r, st')" by simp
    from walk_ok_trans [OF w Cons.IH [OF this]] show ?thesis .
  next
    case (Threw err)
    with Cons.prems m w show ?thesis by simp
  qed
qed

lemma migrateSubmissions_events:
  "migrateSubmissions e st ss = (r, st') \<Longrightarrow>
     \<exists>t. trace st' = trace st @ t \<and> list_all submission_level t"
proof (induction ss arbitrary: st)
  case Nil
  then show ?case by simp
next
  case (Cons s ss)
  obtain r1 st1 where m: "migrateSubmission e st s = (r1, st1)"
    by (cases "migrateSubmission e st s") auto
  from migrateSubmission_events [OF m]
  obtain t1 where t1: "trace st1 = trace st @ t1" "list_all submission_level t1" by blast
  show ?case
  proof (cases r1)
    case Returned
    with Cons.prems m have "migrateSubmissions e st1 ss = (r, st')" by simp
    from Cons.IH [OF this] t1 show ?thesis by auto
  next
    case (Threw err)
    with Cons.prems m t1 show ?thesis by simp
  qed
qed

lemma walkSubmissions_walk:
  "walkSubmissions e st p qs = (r, st') \<Longrightarrow> walk_ok st st'"
  by (auto simp: walkSubmissions_def split: prod.splits outcome.splits
      dest: migrateSubmissions_walk)

lemma walkSubmissions_events:
  "walkSubmissions e st p qs = (r, st') \<Longrightarrow>
     \<exists>t. trace st' = trace st @ t \<and> list_all submission_level t"
  by (auto simp: walkSubmissions_def split: prod.splits outcome.splits
      dest: migrateSubmissions_events)

lemma projectOgImage_frame:
  "media_only (\<lambda>u. True) st (step_state (projectOgImage e st p np))"
  by (auto simp: projectOgImage_def media_only_refl
      split: option.splits prod.splits sum.splits
      dest!: fetchAndUpload_frame elim: media_only_mono)

lemma mediaTask_frame:
  "mediaTask e st p m = (r, st') \<Longrightarrow> media_only (\<lambda>u. True) st st'"
  by (auto simp: mediaTask_def media_only_refl
      split: mediatype.splits option.splits prod.splits sum.splits if_splits
      dest!: fetchAndUpload_frame elim: media_only_mono)

lemma mediaTasks_frame:
  "mediaTasks e st p ms = (r, st') \<Longrightarrow> media_only (\<lambda>u. True) st st'"
proof (induction ms arbitrary: st r st')
  case Nil
  then show ?case by (simp add: media_only_refl)
next
  case (Cons m ms)
  obtain r1 st1 where m: "mediaTask e st p m = (r1, st1)"
    by (cases "mediaTask e st p m") auto
  note f = mediaTask_frame [OF m]
  show ?case
  proof (cases r1)
    case (Inl err)
    with Cons.prems m f show ?thesis by simp
  next
    case (Inr x)
    obtain r2 st2 where ms: "mediaTasks e st1 p ms = (r2, st2)"
      by (cases "mediaTasks e st1 p ms") auto
    from Inr Cons.prems m ms have "st' = st2" by (cases r2) simp_all
    with media_only_trans [OF f Cons.IH [OF ms]] show ?thesis by simp
  qed
qed

lemma projectCreate_cases:
  assumes "projectCreate e st p np qs = (r, st')"
  shows "(postProject e (length (trace st)) np = None \<and> r = Returned
        \<and> mapping st' = mapping st \<and> failed st' = failed st \<and> missing st' = missing st
        \<and> trace st' = trace st @ [PostProject (p_id p) np None])
    \<or> (\<exists>newId. postProject e (length (trace st)) np = Some newId
        \<and> walkSubmissions e
            (st\<lparr>trace := trace st @ [PostProject (p_id p) np (Some newId)],
                mapping := (mapping st)
                  \<lparr>map_projects := (map_projects (mapping st))(p_id p \<mapsto> newId),
                   successfullyProcessed := successfullyProcessed (mapping st) @ [Num (p_id p)]\<rparr>\<rparr>)
            p qs = (r, st'))"
  using assms by (auto simp: projectCreate_def Let_def split: option.splits)

lemma migrateProject_cases:
  assumes run: "migrateProject e st p = (r, st')"
  shows "(Num (p_id p) \<in> set (successfullyProcessed (mapping st))
        \<and> walkSubmissions e st p (filter (\<lambda>s. s_project s = p_id p) (submissions e)) = (r, st'))
    \<or> (Num (p_id p) \<notin> set (successfullyProcessed (mapping st))
        \<and> media_only (\<lambda>u. True) st st')
    \<or> (Num (p_id p) \<notin> set (successfullyProcessed (mapping st))
        \<and> (\<exists>st2 np. media_only (\<lambda>u. True) st st2
              \<and> projectCreate e st2 p np (filter (\<lambda>s. s_project s = p_id p) (submissions e))
                  = (r, st')))"
proof (cases "Num (p_id p) \<in> set (successfullyProcessed (mapping st))")
  case True
  with run show ?thesis by (simp add: migrateProject_def)
next
  case np: False
  show ?thesis
  proof (cases "buildProject e st p")
    case (Inl err)
    with run np have "st' = st" by (simp add: migrateProject_def)
    with np show ?thesis by (simp add: media_only_refl)
  next
    case b: (Inr newProject)
    have og: "media_only (\<lambda>u. True) st (step_state (projectOgImage e st p newProject))"
      by (rule projectOgImage_frame)
    show ?thesis
    proof (cases "projectOgImage e st p newProject")
      case (Done r1 st1)
      with run np b have "st' = st1" by (simp add: migrateProject_def)
      with og Done np show ?thesis by simp
    next
      case o: (Next np1 st1)
      with og have m1: "media_only (\<lambda>u. True) st st1" by simp
      obtain r2 st2 where mt: "mediaTasks e st1 p (case p_media p of None \<Rightarrow> [] | Some ms \<Rightarrow> ms)
          = (r2, st2)"
        by (cases "mediaTasks e st1 p (case p_media p of None \<Rightarrow> [] | Some ms \<Rightarrow> ms)") auto
      from media_only_trans [OF m1 mediaTasks_frame [OF mt]]
      have m2: "media_only (\<lambda>u. True) st st2" .
      show ?thesis
      proof (cases r2)
        case (Inl err)
        with run np b o mt have "st' = st2" by (simp add: migrateProject_def)
        with m2 np show ?thesis by simp
      next
        case (Inr media)
        with run np b o mt
        have "projectCreate e st2 p (np1\<lparr>np_media := media\<rparr>)
            (filter (\<lambda>s. s_project s = p_id p) (submissions e)) = (r, st')"
          by (simp add: migrateProject_def)
        with m2 np show ?thesis by blast
      qed
    qed
  qed
qed

lemma projectCreate_walk:
  assumes np: "Num (p_id p) \<notin> set (successfullyProcessed (mapping st))"
    and run: "projectCreate e st p newProject qs = (r, st')"
  shows "walk_ok st st'"
  using projectCreate_cases [OF run]
proof (elim disjE conjE exE)
  assume "mapping st' = mapping st"
    "trace st' = trace st @ [PostProject (p_id p) newProject None]"
  with np show ?thesis by (simp add: walk_ok_def)
next
  fix newId
  let ?stm = "st\<lparr>trace := trace st @ [PostProject (p_id p) newProject (Some newId)],
                mapping := (mapping st)
                  \<lparr>map_projects := (map_projects (mapping st))(p_id p \<mapsto> newId),
                   successfullyProcessed := successfullyProcessed (mapping st) @ [Num (p_id p)]\<rparr>\<rparr>"
  assume "walkSubmissions e ?stm p qs = (r, st')"
  from walkSubmissions_walk [OF this] have "walk_ok ?stm st'" .
  moreover from np have "walk_ok st ?stm" by (auto simp: walk_ok_def)
  ultimately show ?thesis by (rule walk_ok_trans [rotated])
qed

lemma migrateProject_walk:
  assumes run: "migrateProject e st p = (r, st')"
  shows "walk_ok st st'"
  using migrateProject_cases [OF run]
proof (elim disjE conjE exE)
  assume "walkSubmissions e st p (filter (\<lambda>s. s_project s = p_id p) (submissions e)) = (r, st')"
  then show ?thesis by (rule walkSubmissions_walk)
next
  assume "media_only (\<lambda>u. True) st st'"
  then show ?thesis by (intro mapping_kept_walk media_only_kept)
next
  fix st2 newProject
  assume np: "Num (p_id p) \<notin> set (successfullyProcessed (mapping st))"
    and m: "media_only (\<lambda>u. True) st st2"
    and c: "projectCreate e st2 p newProject (filter (\<lambda>s. s_project s = p_id p) (submissions e))
        = (r, st')"
  from m np have "Num (p_id p) \<notin> set (successfullyProcessed (mapping st2))"
    by (simp add: media_only_def)
  from projectCreate_walk [OF this c] mapping_kept_walk [OF media_only_kept [OF m]]
  show ?thesis by (rule walk_ok_trans [rotated])
qed

lemma migrateProjects_walk:
  "migrateProjects e st ps = (r, st') \<Longrightarrow> walk_ok st st'"
proof (induction ps arbitrary: st)
  case Nil
  then show ?case by (simp add: walk_ok_refl)
next
  case (Cons p ps)
  obtain r1 st1 where m: "migrateProject e st p = (r1, st1)"
    by (cases "migrateProject e st p") auto
  note w = migrateProject_walk [OF m]
  show ?case
  proof (cases r1)
    case Returned
    with Cons.prems m
    have "migrateProjects e (consoleWrite (Log (''Migrated project '' @ p_title p)) st1) ps
        = (r, st')"
      by simp
    from Cons.IH [OF this] have "walk_ok st1 st'" by simp
    from walk_ok_trans [OF w this] show ?thesis .
  next
    case (Threw err)
    with Cons.prems m w show ?thesis by simp
  qed
qed

lemma guildIcon_frame:
  "media_only (\<lambda>u. True) st (step_state (guildIcon e st g imageUrl ng))"
  by (auto simp: guildIcon_def media_only_refl split: prod.splits sum.splits
      dest!: fetchAndUpload_frame elim: media_only_mono)

lemma guildCreate_walk:
  assumes np: "Str (g_id g) \<notin> set (successfullyProcessed (mapping st))"
    and run: "guildCreate e st g ng qp = (r, st')"
  shows "walk_ok st st'"
proof (cases "postGuild e (length (trace st)) ng")
  case None
  with run have "mapping st' = mapping st" "trace st' = trace st @ [PostGuild (g_id g) ng None]"
    by (auto simp: guildCreate_def Let_def)
  with np show ?thesis by (simp add: walk_ok_def)
next
  case (Some newId)
  let ?stm = "st\<lparr>trace := trace st @ [PostGuild (g_id g) ng (Some newId)],
                mapping := (mapping st)
                  \<lparr>map_guilds := (map_guilds (mapping st))(g_id g \<mapsto> newId),
                   successfullyProcessed := successfullyProcessed (mapping st) @ [Str (g_id g)]\<rparr>\<rparr>"
  from Some run have "migrateProjects e ?stm qp = (r, st')"
    by (simp add: guildCreate_def Let_def)
  from migrateProjects_walk [OF this] have "walk_ok ?stm st'" .
  moreover from np have "walk_ok st ?stm" by (auto simp: walk_ok_def)
  ultimately show ?thesis by (rule walk_ok_trans [rotated])
qed

lemma migrateGuild_walk:
  assumes run: "migrateGuild e st g = (r, st')"
  shows "walk_ok st st'"
proof (cases "Str (g_id g) \<in> set (successfullyProcessed (mapping st))")
  case True
  with run have "migrateProjects e st (filter (\<lambda>p. p_guild p = g_id g) (projects e)) = (r, st')"
    by (simp add: migrateGuild_def)
  then show ?thesis by (rule migrateProjects_walk)
next
  case np: False
  show ?thesis
  proof (cases "buildGuild e g")
    case (Inl err)
    with run np show ?thesis by (simp add: migrateGuild_def walk_ok_refl)
  next
    case (Inr built)
    obtain imageUrl ng where built: "built = (imageUrl, ng)" by (cases built)
    have f: "media_only (\<lambda>u. True) st (step_state (guildIcon e st g imageUrl ng))"
      by (rule guildIcon_frame)
    show ?thesis
    proof (cases "guildIcon e st g imageUrl ng")
      case (Done r1 st1)
      with run np Inr built have "st' = st1" by (simp add: migrateGuild_def)
      with f Done show ?thesis by (auto intro: mapping_kept_walk media_only_kept)
    next
      case (Next ng1 st1)
      with f have m: "media_only (\<lambda>u. True) st st1" by simp
      with np have np1: "Str (g_id g) \<notin> set (successfullyProcessed (mapping st1))"
        by (simp add: media_only_def)
      from run np Inr built Next
      have "guildCreate e st1 g ng1 (filter (\<lambda>p. p_guild p = g_id g) (projects e)) = (r, st')"
        by (simp add: migrateGuild_def)
      from guildCreate_walk [OF np1 this] mapping_kept_walk [OF media_only_kept [OF m]]
      show ?thesis by (rule walk_ok_trans [rotated])
    qed
  qed
qed

lemma migrateGuilds_walk:
  "migrateGuilds e st gs = (r, st') \<Longrightarrow> walk_ok st st'"
proof (induction gs arbitrary: st)
  case Nil
  then show ?case by (simp add: walk_ok_refl)
next
  case (Cons g gs)
  obtain r1 st1 where m: "migrateGuild e st g = (r1, st1)"
    by (cases "migrateGuild e st g") auto
  note w = migrateGuild_walk [OF m]
  show ?case
  proof (cases r1)
    case Returned
    with Cons.prems m
    have "migrateGuilds e (consoleWrite (Log (''Migrated guild '' @ g_name g)) st1) gs = (r, st')"
      by simp
    from Cons.IH [OF this] have "walk_ok st1 st'" by simp
    from walk_ok_trans [OF w this] show ?thesis .
  next
    case (Threw err)
    with Cons.prems m w show ?thesis by simp
  qed
qed

lemma main_walk:
  assumes "main e st d = (r, st', d')"
  shows "walk_ok st st'"
proof -
  obtain r1 st1 where m: "migrateGuilds e (consoleWrite (Log ''Starting migration'') st) (guilds e)
      = (r1, st1)"
    by (cases "migrateGuilds e (consoleWrite (Log ''Starting migration'') st) (guilds e)") auto
  from migrateGuilds_walk [OF m] have "walk_ok st st1" by simp
  moreover from assms m have "walk_ok st st' = walk_ok st st1"
    by (cases r1) (auto simp: main_def Let_def)
  ultimately show ?thesis by simp
qed

lemma main_Returned_disk:
  assumes "main e st d = (Returned, st', d')"
  shows "idmap_json d' = mapping st' \<and> missing_json d' = missing st' \<and> failed_json d' = failed st'"
proof -
  obtain r1 st1 where m: "migrateGuilds e (consoleWrite (Log ''Starting migration'') st) (guilds e)
      = (r1, st1)"
    by (cases "migrateGuilds e (consoleWrite (Log ''Starting migration'') st) (guilds e)") auto
  with assms show ?thesis by (cases r1) (auto simp: main_def Let_def)
qed

lemma onExit_disk:
  "onExit st d = (st', d') \<Longrightarrow>
     idmap_json d' = mapping st \<and> missing_json d' = missing st \<and> failed_json d' = failed_json d
     \<and> mapping st' = mapping st \<and> missing st' = missing st \<and> failed st' = failed st"
  by (auto simp: onExit_def)

lemma exitListeners_disk:
  "exitListeners st d = (st', d') \<Longrightarrow>
     idmap_json d' = mapping st \<and> missing_json d' = missing st \<and> failed_json d' = failed_json d
     \<and> mapping st' = mapping st \<and> missing st' = missing st \<and> failed st' = failed st"
  by (auto simp: exitListeners_def onExit_def)

lemma exitHandler_disk:
  "exitHandler st d = (st', d') \<Longrightarrow>
     idmap_json d' = mapping st \<and> missing_json d' = missing st \<and> failed_json d' = failed_json d
     \<and> mapping st' = mapping st \<and> missing st' = missing st \<and> failed st' = failed st"
  by (auto simp: exitHandler_def exitListeners_def onExit_def)

section \<open>The cache lookup\<close>

text \<open>
  C10. When \<open>findImageInCache\<close> is called with the force-invalidation flag set and the
  file is absent from the cache directory but present in the originals directory, under
  the raw or under the URL-decoded file name, the lookup throws: it unlinks the cache
  path, which does not exist. It returns neither not-found nor the originals bytes, and
  it changes nothing.
\<close>

theorem findImageInCache_forced_original_throws:
  assumes "lookupPath (cache st) folder filename = None"
    and "orig e (folder, filename) \<noteq> None
      \<or> (\<exists>decoded. decodeURIComponent e filename = Some decoded \<and> orig e (folder, decoded) \<noteq> None)"
  shows "findImageInCache e st folder filename True = (Inl ENOENT, st)"
  using assms by (auto simp: findImageInCache_def split: option.splits)

theorem findImageInCache_forced_original_throws_witness:
  "lookupPath (cache emptyState) ''7'' ''a.png'' = None
   \<and> orig (exampleEnv\<lparr>orig := [(''7'', ''a.png'') \<mapsto> File [4, 5]]\<rparr>) (''7'', ''a.png'') \<noteq> None
   \<and> findImageInCache (exampleEnv\<lparr>orig := [(''7'', ''a.png'') \<mapsto> File [4, 5]]\<rparr>) emptyState
        ''7'' ''a.png'' True = (Inl ENOENT, emptyState)"
proof -
  have c: "lookupPath (cache emptyState) ''7'' ''a.png'' = None"
    by (simp add: example_defs lookupPath_def)
  have o: "orig (exampleEnv\<lparr>orig := [(''7'', ''a.png'') \<mapsto> File [4, 5]]\<rparr>) (''7'', ''a.png'')
      \<noteq> None"
    by (simp add: example_defs)
  from findImageInCache_forced_original_throws [OF c disjI1 [OF o]] c o
  show ?thesis by simp
qed

section \<open>Submissions: the creation call\<close>

text \<open>
  C3 (as amended). When the POST that creates a submission fails, \<open>migrateSubmission\<close>
  returns normally, pushes the legacy id of the submission onto the Failed list, and
  leaves the mapping and the Missing list as they were: the id stays out of
  \<open>successfullyProcessed\<close>, so the submission stays unprocessed and the check at the
  head of \<open>migrateSubmission\<close> does not skip it in a later run.
\<close>

theorem submission_creation_failure_marks_failed:
  assumes run: "migrateSubmission e st s = (r, st')"
    and ev: "PostSubmission i ns False \<in> set (issued st st')"
  shows "r = Returned \<and> i = s_id s \<and> failed st' = failed st @ [s_id s]
    \<and> mapping st' = mapping st \<and> missing st' = missing st
    \<and> Str (s_id s) \<notin> set (successfullyProcessed (mapping st'))"
proof -
  from migrateSubmission_cases [OF run]
  consider (processed) "st' = st"
    | (stopped) t where "trace st' = trace st @ t" "list_all (media_event (submissionGet e s)) t"
    | (posted) st3 ns3 where "Str (s_id s) \<notin> set (successfullyProcessed (mapping st))"
        "media_only (submissionGet e s) st st3" "submissionCreate e st3 s ns3 = (r, st')"
    by blast
  then show ?thesis
  proof cases
    case processed
    with ev show ?thesis by (simp add: issued_def)
  next
    case stopped
    with ev have "media_event (submissionGet e s) (PostSubmission i ns False)"
      by (auto simp: issued_append list_all_iff)
    then show ?thesis by simp
  next
    case posted
    from posted(2) obtain t where t: "trace st3 = trace st @ t"
      "list_all (media_event (submissionGet e s)) t"
      and k: "mapping st3 = mapping st" "failed st3 = failed st" "missing st3 = missing st"
      by (auto simp: media_only_def)
    note c = submissionCreate_result [OF posted(3)]
    from c t have "issued st st'
        = t @ [PostSubmission (s_id s) ns3 (postSubmission e (length (trace st3)) ns3)]"
      by (simp add: issued_def)
    with ev t(2) have "PostSubmission i ns False
        = PostSubmission (s_id s) ns3 (postSubmission e (length (trace st3)) ns3)"
      by (auto simp: list_all_iff)
    then have "i = s_id s" "\<not> postSubmission e (length (trace st3)) ns3" by simp_all
    with c k posted(1) show ?thesis by simp
  qed
qed

theorem submission_creation_failure_marks_failed_witness:
  "PostSubmission (s_id exampleSubmission) (initialSubmission emptyState exampleSubmission) False
     \<in> set (issued emptyState (snd (migrateSubmission failingCreateEnv emptyState exampleSubmission)))
   \<and> fst (migrateSubmission failingCreateEnv emptyState exampleSubmission) = Returned
   \<and> failed (snd (migrateSubmission failingCreateEnv emptyState exampleSubmission))
       = failed emptyState @ [s_id exampleSubmission]
   \<and> mapping (snd (migrateSubmission failingCreateEnv emptyState exampleSubmission))
       = mapping emptyState
   \<and> Str (s_id exampleSubmission) \<notin> set (successfullyProcessed
       (mapping (snd (migrateSubmission failingCreateEnv emptyState exampleSubmission))))"
proof -
  have ev: "PostSubmission (s_id exampleSubmission)
       (initialSubmission emptyState exampleSubmission) False
     \<in> set (issued emptyState (snd (migrateSubmission failingCreateEnv emptyState exampleSubmission)))"
    by (simp add: example_defs failingCreateEnv_def submission_defs issued_def)
  from submission_creation_failure_marks_failed [OF surjective_pairing ev] ev
  show ?thesis by blast
qed

text \<open>The claim as first stated, that a failed creation call does not mark the
  submission Failed, is false: here the id is not in the Failed list before the call,
  the creation call fails, and the id is in the Failed list afterwards.\<close>

theorem creation_failure_not_marked_counterexample:
  "s_id exampleSubmission \<notin> set (failed emptyState)
   \<and> trace (snd (migrateSubmission failingCreateEnv emptyState exampleSubmission))
       = [PostSubmission ''s1'' (initialSubmission emptyState exampleSubmission) False]
   \<and> s_id exampleSubmission
       \<in> set (failed (snd (migrateSubmission failingCreateEnv emptyState exampleSubmission)))"
  by (simp add: example_defs failingCreateEnv_def submission_defs)

section \<open>Submissions: videos\<close>

text \<open>
  Videos whose source parses. For a submission that is not processed yet, of type video,
  with a non-empty source that \<open>new URL\<close> accepts: when the host of the URL is the
  legacy object-storage host,
  \<open>migrateSubmission\<close> returns after appending the submission to the Missing list and
  writing one line to the console, and does nothing else (no remote call, so no
  submission is created); otherwise the video block
  puts the URL unchanged into the request body and leaves the state as it is (no fetch),
  every creation call issued afterwards carries that URL, the only GET the function can
  issue is the one for the author icon, and without an author icon the creation call is
  the only remote call.
\<close>

lemma video_submission_missing_or_carried:
  assumes np: "Str (s_id s) \<notin> set (successfullyProcessed (mapping st))"
    and video: "s_type s = Video" "s_src s = Some u" "u \<noteq> []" "parseURL e u = Some videoUrl"
    and run: "migrateSubmission e st s = (r, st')"
  shows "(host videoUrl = legacyHost \<longrightarrow> r = Returned
          \<and> st' = consoleWrite (LogError (''Missing video for '' @ s_id s))
                   (st\<lparr>missing := missing st @ [s]\<rparr>))
    \<and> (host videoUrl \<noteq> legacyHost \<longrightarrow>
          submissionVideo e st s (initialSubmission st s)
            = Next ((initialSubmission st s)\<lparr>ns_url := Some u\<rparr>) st
        \<and> (\<forall>i ns b. PostSubmission i ns b \<in> set (issued st st') \<longrightarrow> i = s_id s \<and> ns_url ns = Some u)
        \<and> (\<forall>g reply. HttpGet g reply \<in> set (issued st st') \<longrightarrow> authorIconGet e s g)
        \<and> (\<not> truthy (s_srcIcon s) \<longrightarrow> r = Returned \<and> (\<exists>b. issued st st'
              = [PostSubmission (s_id s) ((initialSubmission st s)\<lparr>ns_url := Some u\<rparr>) b])))"
proof (cases "host videoUrl = legacyHost")
  case True
  with video have "submissionVideo e st s (initialSubmission st s)
      = Done Returned (consoleWrite (LogError (''Missing video for '' @ s_id s))
          (st\<lparr>missing := missing st @ [s]\<rparr>))"
    by (simp add: submissionVideo_def)
  with np run True show ?thesis by (simp add: migrateSubmission_def)
next
  case remote: False
  with video have v: "submissionVideo e st s (initialSubmission st s)
      = Next ((initialSubmission st s)\<lparr>ns_url := Some u\<rparr>) st"
    by (simp add: submissionVideo_def)
  have noimg: "\<not> remoteImageGet e s g" for g
    using video by (simp add: remoteImageGet_def)
  from migrateSubmission_cases [OF run] np
  consider (stopped) t where "trace st' = trace st @ t"
      "list_all (media_event (submissionGet e s)) t"
    | (posted) st3 ns3 where "media_only (submissionGet e s) st st3"
        "submissionCreate e st3 s ns3 = (r, st')" "ns_url ns3 = Some u"
    using video by auto
  then have events: "(\<forall>i ns b. PostSubmission i ns b \<in> set (issued st st')
        \<longrightarrow> i = s_id s \<and> ns_url ns = Some u)
      \<and> (\<forall>g reply. HttpGet g reply \<in> set (issued st st') \<longrightarrow> authorIconGet e s g)"
  proof cases
    case stopped
    then show ?thesis
      using noimg by (auto simp: issued_append list_all_iff submissionGet_def)
  next
    case posted
    from posted(1) obtain t where t: "trace st3 = trace st @ t"
      "list_all (media_event (submissionGet e s)) t"
      by (auto simp: media_only_def)
    from submissionCreate_result [OF posted(2)] t
    have "issued st st'
        = t @ [PostSubmission (s_id s) ns3 (postSubmission e (length (trace st3)) ns3)]"
      by (simp add: issued_def)
    with t(2) posted(3) show ?thesis
      using noimg by (auto simp: list_all_iff submissionGet_def)
  qed
  have "r = Returned \<and> (\<exists>b. issued st st'
      = [PostSubmission (s_id s) ((initialSubmission st s)\<lparr>ns_url := Some u\<rparr>) b])"
    if "\<not> truthy (s_srcIcon s)"
  proof -
    from that have "submissionIcon e st s ((initialSubmission st s)\<lparr>ns_url := Some u\<rparr>)
        = Next ((initialSubmission st s)\<lparr>ns_url := Some u\<rparr>) st"
      by (simp add: submissionIcon_def)
    moreover have "submissionImage e st s ((initialSubmission st s)\<lparr>ns_url := Some u\<rparr>)
        = Next ((initialSubmission st s)\<lparr>ns_url := Some u\<rparr>) st"
      using video by (simp add: submissionImage_def)
    ultimately have "submissionCreate e st s ((initialSubmission st s)\<lparr>ns_url := Some u\<rparr>)
        = (r, st')"
      using run np v by (simp add: migrateSubmission_def)
    from submissionCreate_result [OF this] show ?thesis by (simp add: issued_def)
  qed
  with remote v events show ?thesis by blast
qed

lemma video_submission_missing_or_carried_example:
  "migrateSubmission exampleEnv emptyState legacyVideo
     = (Returned, consoleWrite (LogError (''Missing video for '' @ s_id legacyVideo))
         (emptyState\<lparr>missing := missing emptyState @ [legacyVideo]\<rparr>))
   \<and> submissionVideo exampleEnv emptyState remoteVideo (initialSubmission emptyState remoteVideo)
     = Next ((initialSubmission emptyState remoteVideo)\<lparr>ns_url := Some ''https://video.example/watch''\<rparr>)
         emptyState
   \<and> (\<exists>b. issued emptyState (snd (migrateSubmission exampleEnv emptyState remoteVideo))
       = [PostSubmission (s_id remoteVideo)
            ((initialSubmission emptyState remoteVideo)\<lparr>ns_url := Some ''https://video.example/watch''\<rparr>) b])"
proof -
  have np: "Str (s_id legacyVideo) \<notin> set (successfullyProcessed (mapping emptyState))"
    "Str (s_id remoteVideo) \<notin> set (successfullyProcessed (mapping emptyState))"
    by (simp_all add: example_defs remoteVideo_def legacyVideo_def)
  have l: "s_type legacyVideo = Video"
    "s_src legacyVideo = Some ''https://s3.fr-par.scw.cloud/bucket/c.png''"
    "''https://s3.fr-par.scw.cloud/bucket/c.png'' \<noteq> []"
    "parseURL exampleEnv ''https://s3.fr-par.scw.cloud/bucket/c.png''
       = Some \<lparr>host = ''s3.fr-par.scw.cloud'', pathname = ''/bucket/c.png''\<rparr>"
    by (simp_all add: example_defs remoteVideo_def legacyVideo_def)
  have r: "s_type remoteVideo = Video"
    "s_src remoteVideo = Some ''https://video.example/watch''"
    "''https://video.example/watch'' \<noteq> []"
    "parseURL exampleEnv ''https://video.example/watch''
       = Some \<lparr>host = ''video.example'', pathname = ''/watch''\<rparr>"
    by (simp_all add: example_defs remoteVideo_def legacyVideo_def)
  have hosts: "host \<lparr>host = ''s3.fr-par.scw.cloud'', pathname = ''/bucket/c.png''\<rparr> = legacyHost"
    "host \<lparr>host = ''video.example'', pathname = ''/watch''\<rparr> \<noteq> legacyHost"
    "\<not> truthy (s_srcIcon remoteVideo)"
    by (simp_all add: example_defs remoteVideo_def legacyVideo_def)
  from video_submission_missing_or_carried [OF np(1) l surjective_pairing]
    video_submission_missing_or_carried [OF np(2) r surjective_pairing] hosts
  show ?thesis by (metis prod.collapse)
qed

text \<open>
  C8. The claim is for every submission of type video with a source: a source on the
  legacy host is reported missing and skipped, any other is carried unchanged into the
  new submission. The script decides this by \<open>new URL(submission.src)\<close>, before any
  \<open>try\<close>. For a video whose source \<open>new URL\<close> rejects (here one without a scheme),
  \<open>migrateSubmission\<close> throws: the submission is neither reported missing nor created,
  the loop over the submissions of the project ends, and \<open>main\<close> throws after the
  guild and the project have been created, so that the well-formed submission after the
  video is never migrated. Alone, that submission is created.
\<close>

theorem video_source_not_a_url_aborts_run:
  "s_type schemelessVideo = Video
   \<and> s_src schemelessVideo = Some ''video.example/watch''
   \<and> parseURL schemelessVideoEnv ''video.example/watch'' = None
   \<and> migrateSubmission schemelessVideoEnv emptyState schemelessVideo
       = (Threw InvalidURL, emptyState)
   \<and> migrateSubmissions schemelessVideoEnv emptyState [schemelessVideo, exampleSubmission]
       = (Threw InvalidURL, emptyState)
   \<and> fst (main schemelessVideoEnv emptyState emptyDisk) = Threw InvalidURL
   \<and> map creation (trace (fst (snd (main schemelessVideoEnv emptyState emptyDisk))))
       = [Some (Str ''g1''), Some (Num 7)]
   \<and> missing (fst (snd (main schemelessVideoEnv emptyState emptyDisk))) = []
   \<and> fst (migrateSubmission schemelessVideoEnv emptyState exampleSubmission) = Returned
   \<and> map creation (trace (snd (migrateSubmission schemelessVideoEnv emptyState exampleSubmission)))
       = [Some (Str ''s1'')]"
  by (simp add: example_defs schemelessVideo_def schemelessVideoEnv_def walk_defs
      submission_defs)

section \<open>Submissions: the author icon\<close>

text \<open>
  C9. For a submission that is not processed yet and passes the video block, with an
  author icon that is not on the legacy host: when the fetch or the upload of the icon
  throws, \<open>migrateSubmission\<close> logs the exception and returns normally in the state
  the failed attempt left, issues no creation call, and leaves the mapping, the Failed list and the Missing list
  unchanged. The id is still absent from \<open>successfullyProcessed\<close>, so the next run
  does not skip the submission.
\<close>

theorem author_icon_error_skips_submission:
  assumes np: "Str (s_id s) \<notin> set (successfullyProcessed (mapping st))"
    and video: "\<not> (truthy (s_src s) \<and> s_type s = Video)
      \<or> (\<exists>videoUrl. parseURL e (assertString (s_src s)) = Some videoUrl
            \<and> host videoUrl \<noteq> legacyHost)"
    and icon: "truthy (s_srcIcon s)" "parseURL e (assertString (s_srcIcon s)) = Some iconUrl"
      "host iconUrl \<noteq> legacyHost"
    and thrown: "fetchAndUpload e st (toString (s_project s)) (assertString (s_srcIcon s)) iconUrl
      (s_id s \<in> set (failed st)) ''/api/submission-media'' = (Inl err, st1)"
  shows "migrateSubmission e st s
      = (Returned, consoleWrite (LogCaught ''Error fetching submission author icon: '' err) st1)
    \<and> mapping st1 = mapping st \<and> failed st1 = failed st \<and> missing st1 = missing st
    \<and> Str (s_id s) \<notin> set (successfullyProcessed (mapping st1))
    \<and> (\<forall>i ns b. PostSubmission i ns b \<notin> set (issued st st1))"
proof -
  have "\<exists>ns1. submissionVideo e st s (initialSubmission st s) = Next ns1 st"
    using video by (auto simp: submissionVideo_def)
  then obtain ns1 where v: "submissionVideo e st s (initialSubmission st s) = Next ns1 st" ..
  have i: "submissionIcon e st s ns1
      = Done Returned (consoleWrite (LogCaught ''Error fetching submission author icon: '' err) st1)"
    using icon thrown by (simp add: submissionIcon_def)
  have run: "migrateSubmission e st s
      = (Returned, consoleWrite (LogCaught ''Error fetching submission author icon: '' err) st1)"
    using np v i by (simp add: migrateSubmission_def)
  from fetchAndUpload_frame [OF thrown]
  obtain t where k: "mapping st1 = mapping st" "failed st1 = failed st" "missing st1 = missing st"
    and t: "trace st1 = trace st @ t"
      "list_all (media_event (\<lambda>u. encodeURI e (assertString (s_srcIcon s)) = Some u)) t"
    by (auto simp: media_only_def)
  have "PostSubmission i ns b \<notin> set (issued st st1)" for i ns b
    using t by (auto simp: issued_append list_all_iff)
  with run k np show ?thesis by simp
qed

theorem author_icon_error_skips_submission_witness:
  "migrateSubmission failingGetEnv emptyState iconSubmission
     = (Returned, consoleWrite (LogCaught ''Error fetching submission author icon: '' GetFailed)
         (emptyState\<lparr>trace := [HttpGet ''https://cdn.example/icons/a.png'' None]\<rparr>))
   \<and> failed (emptyState\<lparr>trace := [HttpGet ''https://cdn.example/icons/a.png'' None]\<rparr>)
       = failed emptyState
   \<and> missing (emptyState\<lparr>trace := [HttpGet ''https://cdn.example/icons/a.png'' None]\<rparr>)
       = missing emptyState
   \<and> Str (s_id iconSubmission) \<notin> set (successfullyProcessed (mapping
        (emptyState\<lparr>trace := [HttpGet ''https://cdn.example/icons/a.png'' None]\<rparr>)))"
proof -
  have np: "Str (s_id iconSubmission) \<notin> set (successfullyProcessed (mapping emptyState))"
    by (simp add: example_defs iconSubmission_def failingGetEnv_def)
  have video: "\<not> (truthy (s_src iconSubmission) \<and> s_type iconSubmission = Video)
      \<or> (\<exists>videoUrl. parseURL failingGetEnv (assertString (s_src iconSubmission)) = Some videoUrl
            \<and> host videoUrl \<noteq> legacyHost)"
    by (simp add: example_defs iconSubmission_def failingGetEnv_def)
  have icon: "truthy (s_srcIcon iconSubmission)"
    "parseURL failingGetEnv (assertString (s_srcIcon iconSubmission))
       = Some \<lparr>host = ''cdn.example'', pathname = ''/icons/a.png''\<rparr>"
    "host \<lparr>host = ''cdn.example'', pathname = ''/icons/a.png''\<rparr> \<noteq> legacyHost"
    by (simp_all add: example_defs iconSubmission_def failingGetEnv_def)
  have thrown: "fetchAndUpload failingGetEnv emptyState (toString (s_project iconSubmission))
      (assertString (s_srcIcon iconSubmission)) \<lparr>host = ''cdn.example'', pathname = ''/icons/a.png''\<rparr>
      (s_id iconSubmission \<in> set (failed emptyState)) ''/api/submission-media''
      = (Inl GetFailed, emptyState\<lparr>trace := [HttpGet ''https://cdn.example/icons/a.png'' None]\<rparr>)"
    by (simp add: example_defs iconSubmission_def failingGetEnv_def submission_defs)
  from author_icon_error_skips_submission [OF np video icon thrown]
  show ?thesis by blast
qed

section \<open>Submissions: images on the legacy host\<close>

text \<open>
  C5. For a submission of type image whose source URL is on the legacy object-storage
  host: every GET that \<open>migrateSubmission\<close> issues is the GET for the author icon,
  whose URL is not that of the image (there is no GET for the image); and when the
  submission is not processed yet, the author-icon block passes and the local lookup
  \<open>findImageInCache\<close> finds nothing, the function logs that and returns after
  appending the submission to the Missing list, with the Failed list and the mapping
  unchanged and no creation call issued.
\<close>

theorem legacy_image_cache_only:
  assumes image: "s_type s = Image" "parseURL e (assertString (s_src s)) = Some imageUrl"
      "host imageUrl = legacyHost"
    and run: "migrateSubmission e st s = (r, st')"
  shows "(\<forall>g reply. HttpGet g reply \<in> set (issued st st') \<longrightarrow>
            authorIconGet e s g \<and> assertString (s_srcIcon s) \<noteq> assertString (s_src s))
    \<and> (\<forall>ns2 st2. Str (s_id s) \<notin> set (successfullyProcessed (mapping st))
          \<and> submissionIcon e st s (initialSubmission st s) = Next ns2 st2
          \<and> fst (findImageInCache e st2 (toString (s_project s))
                 (lastSegment (pathname imageUrl)) False) = Inr None
        \<longrightarrow> r = Returned
          \<and> st' = (consoleWrite (Log (''Nothing found for submission: '' @ s_id s)) st2)
                   \<lparr>missing := missing st2 @ [s]\<rparr>
          \<and> missing st' = missing st @ [s] \<and> failed st' = failed st \<and> mapping st' = mapping st
          \<and> (\<forall>i ns b. PostSubmission i ns b \<notin> set (issued st st')))"
proof -
  have noimg: "\<not> remoteImageGet e s g" for g
    using image by (simp add: remoteImageGet_def)
  have other: "assertString (s_srcIcon s) \<noteq> assertString (s_src s)" if "authorIconGet e s g" for g
    using that image by (auto simp: authorIconGet_def)
  have "\<forall>g reply. HttpGet g reply \<in> set (issued st st') \<longrightarrow> authorIconGet e s g"
  proof -
    from migrateSubmission_cases [OF run]
    consider (processed) "st' = st"
      | (stopped) t where "trace st' = trace st @ t"
        "list_all (media_event (submissionGet e s)) t"
      | (posted) st3 ns3 where "media_only (submissionGet e s) st st3"
          "submissionCreate e st3 s ns3 = (r, st')"
      by auto
    then show ?thesis
    proof cases
      case processed
      then show ?thesis by (simp add: issued_def)
    next
      case stopped
      then show ?thesis
        using noimg by (auto simp: issued_append list_all_iff submissionGet_def)
    next
      case posted
      from posted(1) obtain t where t: "trace st3 = trace st @ t"
        "list_all (media_event (submissionGet e s)) t"
        by (auto simp: media_only_def)
      from submissionCreate_result [OF posted(2)] t
      have "issued st st'
          = t @ [PostSubmission (s_id s) ns3 (postSubmission e (length (trace st3)) ns3)]"
        by (simp add: issued_def)
      with t(2) show ?thesis
        using noimg by (auto simp: list_all_iff submissionGet_def)
    qed
  qed
  with other
  have gets: "\<forall>g reply. HttpGet g reply \<in> set (issued st st') \<longrightarrow>
      authorIconGet e s g \<and> assertString (s_srcIcon s) \<noteq> assertString (s_src s)"
    by blast
  have miss: "r = Returned
      \<and> st' = (consoleWrite (Log (''Nothing found for submission: '' @ s_id s)) st2)
               \<lparr>missing := missing st2 @ [s]\<rparr>
      \<and> missing st' = missing st @ [s] \<and> failed st' = failed st \<and> mapping st' = mapping st
      \<and> (\<forall>i ns b. PostSubmission i ns b \<notin> set (issued st st'))"
    if np: "Str (s_id s) \<notin> set (successfullyProcessed (mapping st))"
      and i: "submissionIcon e st s (initialSubmission st s) = Next ns2 st2"
      and m: "fst (findImageInCache e st2 (toString (s_project s))
                 (lastSegment (pathname imageUrl)) False) = Inr None"
    for ns2 st2
  proof -
    have v: "submissionVideo e st s (initialSubmission st s) = Next (initialSubmission st s) st"
      using image by (simp add: submissionVideo_def)
    obtain st3 where f: "findImageInCache e st2 (toString (s_project s))
        (lastSegment (pathname imageUrl)) False = (Inr None, st3)"
      using m by (cases "findImageInCache e st2 (toString (s_project s))
        (lastSegment (pathname imageUrl)) False") auto
    from findImageInCache_miss [OF f] have st3: "st3 = st2" .
    have g: "submissionImage e st2 s ns2
        = Done Returned ((consoleWrite (Log (''Nothing found for submission: '' @ s_id s)) st2)
            \<lparr>missing := missing st2 @ [s]\<rparr>)"
      using image f st3 by (simp add: submissionImage_def)
    have res: "r = Returned"
      "st' = (consoleWrite (Log (''Nothing found for submission: '' @ s_id s)) st2)
               \<lparr>missing := missing st2 @ [s]\<rparr>"
      using run np v i g by (simp_all add: migrateSubmission_def)
    from submissionIcon_frame [of e s st "initialSubmission st s"] i
    obtain t where k: "mapping st2 = mapping st" "failed st2 = failed st" "missing st2 = missing st"
      and t: "trace st2 = trace st @ t" "list_all (media_event (authorIconGet e s)) t"
      by (auto simp: media_only_def)
    have "PostSubmission i ns b \<notin> set (issued st st')" for i ns b
      using t res by (auto simp: issued_def list_all_iff)
    with res k show ?thesis by simp
  qed
  from gets miss show ?thesis by blast
qed

theorem legacy_image_cache_only_witness:
  "migrateSubmission exampleEnv emptyState legacyImage
     = (Returned, (consoleWrite (Log (''Nothing found for submission: '' @ s_id legacyImage))
         emptyState)\<lparr>missing := missing emptyState @ [legacyImage]\<rparr>)
   \<and> failed (snd (migrateSubmission exampleEnv emptyState legacyImage)) = failed emptyState
   \<and> (\<forall>g reply. HttpGet g reply
         \<notin> set (issued emptyState (snd (migrateSubmission exampleEnv emptyState legacyImage))))
   \<and> (\<forall>i ns b. PostSubmission i ns b
         \<notin> set (issued emptyState (snd (migrateSubmission exampleEnv emptyState legacyImage))))"
proof -
  have np: "Str (s_id legacyImage) \<notin> set (successfullyProcessed (mapping emptyState))"
    by (simp add: example_defs legacyImage_def)
  have image: "s_type legacyImage = Image"
    "parseURL exampleEnv (assertString (s_src legacyImage))
       = Some \<lparr>host = ''s3.fr-par.scw.cloud'', pathname = ''/bucket/c.png''\<rparr>"
    "host \<lparr>host = ''s3.fr-par.scw.cloud'', pathname = ''/bucket/c.png''\<rparr> = legacyHost"
    by (simp_all add: example_defs legacyImage_def)
  have icon: "submissionIcon exampleEnv emptyState legacyImage (initialSubmission emptyState legacyImage)
      = Next (initialSubmission emptyState legacyImage) emptyState"
    by (simp add: example_defs legacyImage_def submission_defs)
  have miss: "fst (findImageInCache exampleEnv emptyState (toString (s_project legacyImage))
      (lastSegment (pathname \<lparr>host = ''s3.fr-par.scw.cloud'', pathname = ''/bucket/c.png''\<rparr>)) False)
      = Inr None"
    by (simp add: example_defs legacyImage_def submission_defs)
  have noicon: "\<not> authorIconGet exampleEnv legacyImage g" for g
    by (simp add: authorIconGet_def example_defs legacyImage_def)
  from legacy_image_cache_only [OF image surjective_pairing] np icon miss noicon
  show ?thesis by (metis prod.collapse)
qed

text \<open>
  A lookup that throws is not a miss. When the URL path ends in a slash the file name
  is empty and the cache path is the directory of the project; if that directory exists,
  \<open>fs.readFileSync\<close> throws inside the \<open>try\<close>, and the \<open>catch\<close> block marks the
  submission Failed and leaves the Missing list alone.
\<close>

lemma legacy_image_directory_path_marks_failed:
  "lookupPath (cache folderState) ''7'' (lastSegment ''/bucket/'') = Some Dir
   \<and> fst (findImageInCache exampleEnv folderState ''7'' (lastSegment ''/bucket/'') False)
       = Inl EISDIR
   \<and> fst (migrateSubmission exampleEnv folderState slashImage) = Returned
   \<and> failed (snd (migrateSubmission exampleEnv folderState slashImage)) = [''s1'']
   \<and> missing (snd (migrateSubmission exampleEnv folderState slashImage)) = []
   \<and> trace (snd (migrateSubmission exampleEnv folderState slashImage)) = []"
  by (simp add: example_defs slashImage_def folderState_def submission_defs)

section \<open>Submissions: images of failed submissions\<close>

text \<open>
  C6 (as amended). For a submission whose id is in the Failed list, of type image, whose
  source URL is not on the legacy host, with a file in the cache under its folder and
  file name: the image block deletes the cache entry and issues a remote GET. The bytes
  uploaded are the body of that GET and the cache entry is rewritten with them; when
  the GET (or \<open>encodeURI\<close>) fails, the entry stays deleted and the id is pushed onto the
  Failed list again. Neither the cached bytes nor the originals directory play a part.
\<close>

theorem failed_remote_image_refetched:
  assumes fl: "s_id s \<in> set (failed st)"
    and image: "s_type s = Image" "parseURL e (assertString (s_src s)) = Some imageUrl"
      "host imageUrl \<noteq> legacyHost"
    and stale: "lookupPath (cache st) (toString (s_project s)) (lastSegment (pathname imageUrl))
      = Some (File stale)"
  shows "submissionImage e st s ns =
    (case encodeURI e (assertString (s_src s)) of
      None \<Rightarrow>
        Done Returned
          (submissionImageCatch s URIError
            (st\<lparr>cache := removeFile (cache st) (toString (s_project s))
                          (lastSegment (pathname imageUrl))\<rparr>))
    | Some u \<Rightarrow>
        (case httpGet e (length (trace st)) u of
          None \<Rightarrow>
            Done Returned
              (submissionImageCatch s GetFailed
                (st\<lparr>cache := removeFile (cache st) (toString (s_project s))
                              (lastSegment (pathname imageUrl)),
                    trace := trace st @ [HttpGet u None]\<rparr>))
        | Some data \<Rightarrow>
            (case uploadFile e
                    (st\<lparr>trace := trace st @ [HttpGet u (Some data)],
                        cache := storeFile (cache st) (toString (s_project s))
                                   (lastSegment (pathname imageUrl)) data\<rparr>)
                    ''/api/submission-media'' imageUrl data of
              (Inl err, st2) \<Rightarrow> Done Returned (submissionImageCatch s err st2)
            | (Inr newId, st2) \<Rightarrow> Next (ns\<lparr>ns_media := Some newId\<rparr>) st2)))"
proof -
  let ?f = "toString (s_project s)" and ?n = "lastSegment (pathname imageUrl)"
  from stale obtain dir where dir: "cache st ?f = Some dir" "\<not> isDirName ?n"
    "dir ?n = Some stale"
    by (auto simp: lookupPath_def split: option.splits if_splits)
  have look: "findImageInCache e st ?f ?n True
      = (Inr None, st\<lparr>cache := removeFile (cache st) ?f ?n\<rparr>)"
    using stale by (simp add: findImageInCache_def)
  have store: "cacheImage (st\<lparr>cache := removeFile (cache st) ?f ?n, trace := t\<rparr>) ?f ?n data
      = (None, st\<lparr>trace := t, cache := storeFile (cache st) ?f ?n data\<rparr>)" for t data
    using dir by (simp add: cacheImage_def removeFile_def storeFile_def)
  show ?thesis
    using fl image look store
    by (simp add: submissionImage_def fetchAndUpload_def findCacheOrFetch_def Let_def
        split: option.split)
qed

theorem failed_remote_image_refetched_witness:
  "trace (step_state (submissionImage exampleEnv staleState remoteImage
       (initialSubmission staleState remoteImage)))
     = [HttpGet ''https://cdn.example/art/b.png'' (Some [1, 2, 3]),
        PostMedia ''/api/submission-media'' ''b.png'' [1, 2, 3] (Some ''media1'')]
   \<and> lookupPath (cache staleState) ''7'' ''b.png'' = Some (File [9, 9])
   \<and> lookupPath (cache (step_state (submissionImage exampleEnv staleState remoteImage
       (initialSubmission staleState remoteImage)))) ''7'' ''b.png'' = Some (File [1, 2, 3])"
proof -
  have fl: "s_id remoteImage \<in> set (failed staleState)"
    by (simp add: example_defs remoteImage_def staleState_def)
  have image: "s_type remoteImage = Image"
    "parseURL exampleEnv (assertString (s_src remoteImage))
       = Some \<lparr>host = ''cdn.example'', pathname = ''/art/b.png''\<rparr>"
    "host \<lparr>host = ''cdn.example'', pathname = ''/art/b.png''\<rparr> \<noteq> legacyHost"
    by (simp_all add: example_defs remoteImage_def staleState_def)
  have stale: "lookupPath (cache staleState) (toString (s_project remoteImage))
      (lastSegment (pathname \<lparr>host = ''cdn.example'', pathname = ''/art/b.png''\<rparr>))
      = Some (File [9, 9])"
    by (simp add: example_defs remoteImage_def staleState_def submission_defs)
  from failed_remote_image_refetched [OF fl image stale, of "initialSubmission staleState remoteImage"]
  show ?thesis
    by (simp add: example_defs remoteImage_def staleState_def uploadFile_def replaceHash_def
        lastSegment_def lookupPath_def isDirName_def storeFile_def
        toString_def digits.simps digitChar_def)
qed

text \<open>The claim as first stated covers every submission in the Failed list. It fails for
  an image on the legacy host: the lookup is made without the invalidation flag, the
  cached bytes are uploaded and the cache entry stays.\<close>

theorem failed_legacy_image_served_from_cache_counterexample:
  "s_id legacyImage \<in> set (failed staleState)
   \<and> lookupPath (cache staleState) ''7'' ''c.png'' = Some (File [9, 9])
   \<and> issued staleState (snd (migrateSubmission exampleEnv staleState legacyImage))
     = [PostMedia ''/api/submission-media'' ''c.png'' [9, 9] (Some ''media1''),
        PostSubmission ''s1''
          ((initialSubmission staleState legacyImage)\<lparr>ns_media := Some ''media1''\<rparr>) True]
   \<and> lookupPath (cache (snd (migrateSubmission exampleEnv staleState legacyImage)))
        ''7'' ''c.png''
     = Some (File [9, 9])"
  by (simp add: example_defs legacyImage_def staleState_def submission_defs issued_def)

section \<open>Projects: the creation call\<close>

text \<open>
  C7. When the creation call of a project fails, \<open>migrateProject\<close> returns normally with
  the mapping unchanged (the legacy id of the project is not in
  \<open>successfullyProcessed\<close> and its entry in the projects mapping is what it was), the
  Failed and Missing lists unchanged, and without a single creation call for a
  submission: the submissions of the project are not migrated.
\<close>

theorem project_creation_failure_atomic:
  assumes run: "migrateProject e st p = (r, st')"
    and ev: "PostProject i np None \<in> set (issued st st')"
  shows "r = Returned \<and> i = p_id p
    \<and> mapping st' = mapping st \<and> failed st' = failed st \<and> missing st' = missing st
    \<and> Num (p_id p) \<notin> set (successfullyProcessed (mapping st'))
    \<and> map_projects (mapping st') (p_id p) = map_projects (mapping st) (p_id p)
    \<and> (\<forall>j ns b. PostSubmission j ns b \<notin> set (issued st st'))"
proof -
  let ?qs = "filter (\<lambda>s. s_project s = p_id p) (submissions e)"
  from migrateProject_cases [OF run]
  consider (processed) "walkSubmissions e st p ?qs = (r, st')"
    | (stopped) "media_only (\<lambda>u. True) st st'"
    | (posted) st2 np2 where "Num (p_id p) \<notin> set (successfullyProcessed (mapping st))"
        "media_only (\<lambda>u. True) st st2" "projectCreate e st2 p np2 ?qs = (r, st')"
    by blast
  then show ?thesis
  proof cases
    case processed
    from walkSubmissions_events [OF processed]
    obtain t where t: "trace st' = trace st @ t" "list_all submission_level t" by blast
    from ev have "PostProject i np None \<in> set t" by (simp add: issued_append [OF t(1)])
    from list_all_mem [OF t(2) this] show ?thesis by simp
  next
    case stopped
    then obtain t where t: "trace st' = trace st @ t" "list_all (media_event (\<lambda>u. True)) t"
      by (auto simp: media_only_def)
    from ev have "PostProject i np None \<in> set t" by (simp add: issued_append [OF t(1)])
    from list_all_mem [OF t(2) this] show ?thesis by simp
  next
    case posted
    from posted(2) obtain t where t: "trace st2 = trace st @ t"
      "list_all (media_event (\<lambda>u. True)) t"
      and k: "mapping st2 = mapping st" "failed st2 = failed st" "missing st2 = missing st"
      by (auto simp: media_only_def)
    have nt: "PostProject i np None \<notin> set t" "\<And>j ns b. PostSubmission j ns b \<notin> set t"
      using t(2) by (auto simp: list_all_iff)
    from projectCreate_cases [OF posted(3)]
    show ?thesis
    proof (elim disjE conjE exE)
      assume "r = Returned"
        and st': "mapping st' = mapping st2" "failed st' = failed st2" "missing st' = missing st2"
          "trace st' = trace st2 @ [PostProject (p_id p) np2 None]"
      from st' t have "issued st st' = t @ [PostProject (p_id p) np2 None]"
        by (simp add: issued_def)
      with ev nt \<open>r = Returned\<close> st' k posted(1) show ?thesis by auto
    next
      fix newId
      assume "walkSubmissions e
            (st2\<lparr>trace := trace st2 @ [PostProject (p_id p) np2 (Some newId)],
                mapping := (mapping st2)
                  \<lparr>map_projects := (map_projects (mapping st2))(p_id p \<mapsto> newId),
                   successfullyProcessed := successfullyProcessed (mapping st2) @ [Num (p_id p)]\<rparr>\<rparr>)
            p ?qs = (r, st')"
      from walkSubmissions_events [OF this] t
      obtain t2 where t2: "trace st' = trace st @ (t @ PostProject (p_id p) np2 (Some newId) # t2)"
        "list_all submission_level t2"
        by auto
      from ev nt have "PostProject i np None \<in> set t2"
        by (simp add: issued_append [OF t2(1)])
      from list_all_mem [OF t2(2) this] show ?thesis by simp
    qed
  qed
qed

theorem project_creation_failure_atomic_witness:
  "(\<exists>np. issued emptyState (snd (migrateProject failingProjectEnv emptyState exampleProject))
     = [PostProject (p_id exampleProject) np None])
   \<and> fst (migrateProject failingProjectEnv emptyState exampleProject) = Returned
   \<and> mapping (snd (migrateProject failingProjectEnv emptyState exampleProject)) = mapping emptyState
   \<and> Num (p_id exampleProject) \<notin> set (successfullyProcessed
        (mapping (snd (migrateProject failingProjectEnv emptyState exampleProject))))
   \<and> (\<forall>j ns b. PostSubmission j ns b
        \<notin> set (issued emptyState (snd (migrateProject failingProjectEnv emptyState exampleProject))))"
proof -
  have "\<exists>np. issued emptyState (snd (migrateProject failingProjectEnv emptyState exampleProject))
     = [PostProject (p_id exampleProject) np None]"
    by (simp add: example_defs failingProjectEnv_def project_defs issued_def toString_def
        digits.simps digitChar_def)
  then obtain np where i: "issued emptyState
      (snd (migrateProject failingProjectEnv emptyState exampleProject))
      = [PostProject (p_id exampleProject) np None]" ..
  then have ev: "PostProject (p_id exampleProject) np None
      \<in> set (issued emptyState (snd (migrateProject failingProjectEnv emptyState exampleProject)))"
    by simp
  from project_creation_failure_atomic [OF surjective_pairing ev] i
  show ?thesis by blast
qed

section \<open>Idempotence of the walk\<close>

text \<open>
  C1. Let a first run of \<open>main\<close> complete and write its files, and let a second run
  start from those files (with any cache directory, any originals directory and any
  replies of the remote systems). Then every entity-creation call of the second run, for
  a guild, a project or a submission, is for a legacy id that is not in the
  \<open>successfullyProcessed\<close> list the first run wrote, and the first run has no
  successful creation call for that id: nothing is created twice. An entity whose id is
  in \<open>successfullyProcessed\<close> is skipped for creation while its children are walked:
  \<open>migrateGuild\<close> is then the loop over the projects of the guild, \<open>migrateProject\<close>
  the loop over the submissions of the project (with the line it prints), and
  \<open>migrateSubmission\<close> returns at once.
\<close>

theorem second_run_repeats_no_creation:
  assumes first: "main e1 (startup d0 c0) d0 = (Returned, st1, d1)"
    and second: "main e2 (startup d1 c1) d1 = (r2, st2, d2)"
  shows "(\<forall>ev \<in> set (trace st2). \<forall>x. creation ev = Some x \<longrightarrow>
            x \<notin> set (successfullyProcessed (idmap_json d1))
          \<and> (\<forall>ev1 \<in> set (trace st1). created ev1 \<noteq> Some x))
    \<and> (\<forall>st g. Str (g_id g) \<in> set (successfullyProcessed (mapping st)) \<longrightarrow>
          migrateGuild e2 st g
            = migrateProjects e2 st (filter (\<lambda>p. p_guild p = g_id g) (projects e2)))
    \<and> (\<forall>st p. Num (p_id p) \<in> set (successfullyProcessed (mapping st)) \<longrightarrow>
          migrateProject e2 st p
            = walkSubmissions e2 st p (filter (\<lambda>s. s_project s = p_id p) (submissions e2)))
    \<and> (\<forall>st s. Str (s_id s) \<in> set (successfullyProcessed (mapping st)) \<longrightarrow>
          migrateSubmission e2 st s = (Returned, st))"
proof -
  from main_Returned_disk [OF first] have d1: "idmap_json d1 = mapping st1" by simp
  have s: "mapping (startup d c) = idmap_json d" "trace (startup d c) = []" for d c
    by (simp_all add: startup_def)
  have c1: "list_all (\<lambda>ev. case created ev of None \<Rightarrow> True
      | Some x \<Rightarrow> x \<in> set (successfullyProcessed (mapping st1))) (trace st1)"
    using main_walk [OF first] unfolding walk_ok_def s by auto
  have c2: "list_all (\<lambda>ev. case creation ev of None \<Rightarrow> True
      | Some x \<Rightarrow> x \<notin> set (successfullyProcessed (idmap_json d1))) (trace st2)"
    using main_walk [OF second] unfolding walk_ok_def s by auto
  have "x \<notin> set (successfullyProcessed (idmap_json d1))
      \<and> (\<forall>ev1 \<in> set (trace st1). created ev1 \<noteq> Some x)"
    if "ev \<in> set (trace st2)" "creation ev = Some x" for ev x
  proof -
    from list_all_mem [OF c2 that(1)] that(2)
    have n: "x \<notin> set (successfullyProcessed (idmap_json d1))" by simp
    have "created ev1 \<noteq> Some x" if "ev1 \<in> set (trace st1)" for ev1
      using list_all_mem [OF c1 that] n d1 by (auto split: option.splits)
    with n show ?thesis by blast
  qed
  then show ?thesis
    by (simp add: migrateGuild_def migrateProject_def migrateSubmission_def)
qed


theorem second_run_repeats_no_creation_witness:
  "fst firstRun = Returned
   \<and> successfullyProcessed (idmap_json (snd (snd firstRun))) = [Str ''g1'', Num 7]
   \<and> (\<exists>ns. trace (fst (snd secondRun)) = [PostSubmission ''s1'' ns True])
   \<and> Str ''s1'' \<notin> set (successfullyProcessed (idmap_json (snd (snd firstRun))))
   \<and> Some (Str ''s1'') \<notin> set (map created (trace (fst (snd firstRun))))"
proof -
  define d1 where "d1 = snd (snd firstRun)"
  have v: "fst firstRun = Returned
      \<and> successfullyProcessed (idmap_json (snd (snd firstRun))) = [Str ''g1'', Num 7]
      \<and> map_projects (idmap_json (snd (snd firstRun))) 7 = Some ''project1''"
    by (simp add: firstRun_def example_defs fullEnv_def flakyEnv_def walk_defs submission_defs)
  then have d1: "successfullyProcessed (idmap_json d1) = [Str ''g1'', Num 7]"
    "map_projects (idmap_json d1) 7 = Some ''project1''"
    by (simp_all add: d1_def)
  have "\<exists>ns. trace (fst (snd (main fullEnv (startup d1 Map.empty) d1)))
      = [PostSubmission ''s1'' ns True]"
    by (simp add: d1 startup_def exampleURL_def exampleEnv_def exampleSubmission_def
        exampleProject_def exampleGuild_def fullEnv_def legacyHost_def walk_defs submission_defs)
  then obtain ns where t2: "trace (fst (snd secondRun)) = [PostSubmission ''s1'' ns True]"
    by (auto simp: secondRun_def d1_def)
  have first: "main flakyEnv (startup emptyDisk Map.empty) emptyDisk
      = (Returned, fst (snd firstRun), snd (snd firstRun))"
    using v by (simp add: firstRun_def [symmetric] prod_eq_iff)
  have second: "main fullEnv (startup (snd (snd firstRun)) Map.empty) (snd (snd firstRun))
      = (fst secondRun, fst (snd secondRun), snd (snd secondRun))"
    by (simp add: secondRun_def)
  from second_run_repeats_no_creation [OF first second]
  have "\<forall>ev \<in> set (trace (fst (snd secondRun))). \<forall>x. creation ev = Some x \<longrightarrow>
            x \<notin> set (successfullyProcessed (idmap_json (snd (snd firstRun))))
          \<and> (\<forall>ev1 \<in> set (trace (fst (snd firstRun))). created ev1 \<noteq> Some x)"
    by blast
  with t2 have "Str ''s1'' \<notin> set (successfullyProcessed (idmap_json (snd (snd firstRun))))
      \<and> (\<forall>ev1 \<in> set (trace (fst (snd firstRun))). created ev1 \<noteq> Some (Str ''s1''))"
    by simp
  with v t2 show ?thesis by auto
qed

section \<open>Errors outside the try blocks\<close>

text \<open>
  C2. The claim is that every error of a record is caught inside its own migration
  function, so that the siblings of the record are still migrated, in particular for a
  malformed URL field. The script parses the URL before it enters the \<open>try\<close>. With
  the environment variables all set and a guild whose image is not a URL placed before
  a well-formed guild: \<open>migrateGuild\<close> throws, \<open>main\<close> throws with it, and the run
  ends before a single remote call, although the well-formed guild alone would have
  been migrated with its project and submission (three creation calls). An image
  submission without \<open>src\<close> makes \<open>migrateSubmission\<close> throw in the same way.
\<close>

theorem malformed_guild_image_aborts_run:
  "configOk badGuildEnv
   \<and> migrateGuild badGuildEnv emptyState badGuild = (Threw InvalidURL, emptyState)
   \<and> main badGuildEnv emptyState emptyDisk
       = (Threw InvalidURL, consoleWrite (Log ''Starting migration'') emptyState, emptyDisk)
   \<and> fst (script badGuildEnv emptyDisk Map.empty) = Threw InvalidURL
   \<and> trace (fst (snd (script badGuildEnv emptyDisk Map.empty))) = []
   \<and> fst (migrateGuild badGuildEnv emptyState exampleGuild) = Returned
   \<and> length (trace (snd (migrateGuild badGuildEnv emptyState exampleGuild))) = 3
   \<and> fst (migrateSubmission badGuildEnv emptyState (exampleSubmission\<lparr>s_type := Image\<rparr>))
       = Threw InvalidURL"
  by (simp add: configOk_def script_def exitHandler_def exitListeners_def onExit_def
      example_defs badGuild_def badGuildEnv_def fullEnv_def walk_defs submission_defs)

section \<open>Flushing the state to the durable files\<close>

text \<open>
  C4 (as amended). When \<open>main\<close> returns, and when the whole script ends after \<open>main\<close>
  has returned, the mapping, the Missing list and the Failed list are all in their
  files. \<open>exitHandler\<close>, which is what runs on \<open>SIGINT\<close>, \<open>SIGUSR1\<close>, \<open>SIGUSR2\<close> and on
  an uncaught exception, writes the mapping and the Missing list of the state it
  interrupts, and leaves \<open>failed.json\<close> as it was.
\<close>

theorem flush_on_exit_and_on_signal:
  "(\<forall>e st d st' d'. main e st d = (Returned, st', d') \<longrightarrow>
        idmap_json d' = mapping st' \<and> missing_json d' = missing st'
      \<and> failed_json d' = failed st')
   \<and> (\<forall>e d c st' d'. script e d c = (Returned, st', d') \<longrightarrow>
        idmap_json d' = mapping st' \<and> missing_json d' = missing st'
      \<and> failed_json d' = failed st')
   \<and> (\<forall>st d. idmap_json (snd (exitHandler st d)) = mapping st
      \<and> missing_json (snd (exitHandler st d)) = missing st
      \<and> failed_json (snd (exitHandler st d)) = failed_json d)"
proof (intro conjI allI impI)
  fix e st d st' d'
  assume "main e st d = (Returned, st', d')"
  from main_Returned_disk [OF this]
  show "idmap_json d' = mapping st'" "missing_json d' = missing st'" "failed_json d' = failed st'"
    by simp_all
next
  fix e d c st' d'
  assume s: "script e d c = (Returned, st', d')"
  then have ok: "configOk e" by (auto simp: script_def split: if_splits)
  obtain r1 st1 d1 where m: "main e (startup d c) d = (r1, st1, d1)"
    by (cases "main e (startup d c) d") auto
  with s ok have r1: "r1 = Returned" and x: "exitListeners st1 d1 = (st', d')"
    by (cases r1; simp add: script_def)+
  from main_Returned_disk [OF m [unfolded r1]] exitListeners_disk [OF x]
  show "idmap_json d' = mapping st'" "missing_json d' = missing st'" "failed_json d' = failed st'"
    by simp_all
next
  fix st d
  from exitHandler_disk [OF surjective_pairing]
  show "idmap_json (snd (exitHandler st d)) = mapping st"
    "missing_json (snd (exitHandler st d)) = missing st"
    "failed_json (snd (exitHandler st d)) = failed_json d"
    by simp_all
qed

theorem flush_on_exit_and_on_signal_witness:
  "fst (script flakyEnv emptyDisk Map.empty) = Returned
   \<and> failed_json (snd (snd (script flakyEnv emptyDisk Map.empty)))
       = failed (fst (snd (script flakyEnv emptyDisk Map.empty)))
   \<and> idmap_json (snd (snd (script flakyEnv emptyDisk Map.empty)))
       = mapping (fst (snd (script flakyEnv emptyDisk Map.empty)))
   \<and> missing_json (snd (exitHandler staleState emptyDisk)) = missing staleState
   \<and> failed_json (snd (exitHandler staleState emptyDisk)) = failed_json emptyDisk"
proof -
  have ok: "configOk flakyEnv"
    by (simp add: configOk_def example_defs staleState_def flakyEnv_def fullEnv_def)
  have "fst (main flakyEnv (startup emptyDisk Map.empty) emptyDisk) = Returned"
    by (simp add: example_defs staleState_def flakyEnv_def fullEnv_def walk_defs submission_defs)
  with ok have r: "fst (script flakyEnv emptyDisk Map.empty) = Returned"
    by (cases "main flakyEnv (startup emptyDisk Map.empty) emptyDisk")
      (auto simp: script_def split: outcome.splits)
  then have s: "script flakyEnv emptyDisk Map.empty
      = (Returned, fst (snd (script flakyEnv emptyDisk Map.empty)),
         snd (snd (script flakyEnv emptyDisk Map.empty)))"
    by (simp add: prod_eq_iff)
  from flush_on_exit_and_on_signal r s show ?thesis by blast
qed

text \<open>The claim as first stated includes the Failed list on interruption signals. It
  fails there: after a failed creation call the Failed list holds the id, a signal
  leaves \<open>failed.json\<close> empty, and the next start reads an empty Failed list.\<close>

theorem failed_list_not_flushed_on_signal_counterexample:
  "failed (snd (migrateSubmission failingCreateEnv emptyState exampleSubmission)) = [''s1'']
   \<and> failed_json (snd (exitHandler
        (snd (migrateSubmission failingCreateEnv emptyState exampleSubmission)) emptyDisk)) = []
   \<and> failed (startup (snd (exitHandler
        (snd (migrateSubmission failingCreateEnv emptyState exampleSubmission)) emptyDisk))
        Map.empty) = []"
  by (simp add: example_defs failingCreateEnv_def submission_defs exitHandler_def
      exitListeners_def onExit_def)

end
